theory Spec2Isabelle
  imports Complex_Main "HOL-Library.Word"
begin

section \<open>The points style: numbers and shared data\<close>

text \<open>
  The style works on JavaScript numbers. They are modelled as real numbers: rounding,
  infinities and NaN of the binary64 format are outside the model. A position, a size
  and a pixel offset are two-element arrays \<open>[x, y]\<close>, modelled as pairs.
\<close>

type_synonym num = real
type_synonym pair = "num \<times> num"

text \<open>Module constants of the style (source lines 25-28 and 33-35).\<close>

definition pre_angles_normalize :: num where
  "pre_angles_normalize = 128 / pi"

definition angles_normalize :: num where
  "angles_normalize = 16384 / pi"

definition offsets_normalize :: num where
  "offsets_normalize = 64"

definition texcoord_normalize :: num where
  "texcoord_normalize = 65535"

definition TANGRAM_POINT_TYPE_TEXTURE :: nat where
  "TANGRAM_POINT_TYPE_TEXTURE = 1"

definition TANGRAM_POINT_TYPE_LABEL :: nat where
  "TANGRAM_POINT_TYPE_LABEL = 2"

definition TANGRAM_POINT_TYPE_SHADER :: nat where
  "TANGRAM_POINT_TYPE_SHADER = 3"

section \<open>buildQuad\<close>

text \<open>
  \<open>buildQuad\<close> forwards to \<open>buildQuadsForPoints\<close> of the builders module, which is not
  part of the style: it is the parameter \<open>bqfp\<close>. What the style decides is the two
  objects it hands over: the attribute indices read from the vertex layout of the target
  vertex data, and the quad options. A layout is a map from attribute names to indices;
  an attribute the layout does not have reads as \<open>undefined\<close>, here \<open>None\<close>. The
  placeholders \<open>null\<close> that \<open>buildLabel\<close> passes for the per-segment arrays are \<open>None\<close>
  too, and so is any argument that is \<open>undefined\<close> because an array of the label or
  of the style has no entry for a segment.
\<close>

type_synonym vertex_layout = "string \<rightharpoonup> nat"

record quad_indices =
  texcoord_index :: "nat option"
  position_index :: "nat option"
  shape_index :: "nat option"
  offset_index :: "nat option"
  offsets_index :: "nat option"
  pre_angles_index :: "nat option"
  angles_index :: "nat option"

record quad_options =
  o_quad :: "pair option"
  o_quad_normalize :: num
  o_offset :: "pair option"
  o_offsets :: "num list option"
  o_pre_angles :: "num list option"
  o_angle :: num
  o_angles :: "num list option"
  o_curve :: bool
  o_texcoord_scale :: "num list option"
  o_texcoord_normalize :: num
  o_pre_angles_normalize :: num
  o_angles_normalize :: num
  o_offsets_normalize :: num

definition buildQuad_indices :: "vertex_layout \<Rightarrow> quad_indices" where
  "buildQuad_indices index =
     \<lparr> texcoord_index = index ''a_texcoord'',
       position_index = index ''a_position'',
       shape_index = index ''a_shape'',
       offset_index = index ''a_offset'',
       offsets_index = index ''a_offsets'',
       pre_angles_index = index ''a_pre_angles'',
       angles_index = index ''a_angles'' \<rparr>"

definition buildQuad_options ::
  "pair option \<Rightarrow> num \<Rightarrow> num list option \<Rightarrow> num list option \<Rightarrow> pair option \<Rightarrow>
   num list option \<Rightarrow> num list option \<Rightarrow> bool \<Rightarrow> quad_options" where
  "buildQuad_options sz angle angles pre_angles offset offsets texcoord_scale curve =
     \<lparr> o_quad = sz,
       o_quad_normalize = 256,
       o_offset = offset,
       o_offsets = offsets,
       o_pre_angles = pre_angles,
       o_angle = angle * 4096,
       o_angles = angles,
       o_curve = curve,
       o_texcoord_scale = texcoord_scale,
       o_texcoord_normalize = texcoord_normalize,
       o_pre_angles_normalize = pre_angles_normalize,
       o_angles_normalize = angles_normalize,
       o_offsets_normalize = offsets_normalize \<rparr>"

text \<open>
  The vertex data is a value of any type \<open>'vd\<close>; \<open>layout_of\<close> reads
  \<open>vertex_data.vertex_layout.index\<close> from it.
\<close>

definition buildQuad ::
  "(pair list \<Rightarrow> 'vd \<Rightarrow> 'vt \<Rightarrow> quad_indices \<Rightarrow> quad_options \<Rightarrow> 'r) \<Rightarrow> ('vd \<Rightarrow> vertex_layout) \<Rightarrow>
   pair list \<Rightarrow> pair option \<Rightarrow> num \<Rightarrow> num list option \<Rightarrow> num list option \<Rightarrow> pair option \<Rightarrow>
   num list option \<Rightarrow> num list option \<Rightarrow> bool \<Rightarrow> 'vd \<Rightarrow> 'vt \<Rightarrow> 'r" where
  "buildQuad bqfp layout_of points sz angle angles pre_angles offset offsets texcoord_scale curve
     vertex_data vertex_template =
     bqfp points vertex_data vertex_template
       (buildQuad_indices (layout_of vertex_data))
       (buildQuad_options sz angle angles pre_angles offset offsets texcoord_scale curve)"




section \<open>Tiles, features and draw groups\<close>

text \<open>
  The tile descriptor, the evaluation context of a draw group and a feature with its
  GeoJSON geometry. Coordinates are nested arrays of numbers, as decoded from the tile.
\<close>

record tile =
  t_id :: string
  t_key :: string
  t_generation :: nat
  t_canceled :: bool
  t_units_per_pixel :: num

record "context" =
  c_tile :: tile

datatype coords = Num num | Arr "coords list"

record geometry =
  g_type :: string
  g_coordinates :: coords

record feature =
  f_geometry :: geometry
  f_properties :: "(string \<times> string) list"

text \<open>\<open>LabelPoint.PLACEMENT\<close>, the placement strategies a draw group can name.\<close>

datatype placement = VERTEX | MIDPOINT | SPACED | CENTROID

text \<open>
  Dynamically typed values that the style tests for truthiness or for being a boolean.
\<close>

datatype jsval = JUndefined | JNull | JBool bool | JNum num | JStr string

fun truthy :: "jsval \<Rightarrow> bool" where
  "truthy JUndefined = False"
| "truthy JNull = False"
| "truthy (JBool b) = b"
| "truthy (JNum n) = (n \<noteq> 0)"
| "truthy (JStr s) = (s \<noteq> [])"

text \<open>
  \<open>x || d\<close> on a number or a string that may be \<open>undefined\<close>: the default replaces
  \<open>undefined\<close>, zero and the empty string. A number is truthy when it is present and
  not zero, a string when it is present and not empty.
\<close>

definition or_num :: "num option \<Rightarrow> num \<Rightarrow> num" where
  "or_num v d = (case v of None \<Rightarrow> d | Some x \<Rightarrow> if x \<noteq> 0 then x else d)"

definition truthy_num :: "num option \<Rightarrow> bool" where
  "truthy_num v = (case v of None \<Rightarrow> False | Some x \<Rightarrow> x \<noteq> 0)"

definition or_str :: "string option \<Rightarrow> string \<Rightarrow> string" where
  "or_str v d = (case v of None \<Rightarrow> d | Some s \<Rightarrow> if s \<noteq> [] then s else d)"

definition truthy_str :: "string option \<Rightarrow> bool" where
  "truthy_str v = (case v of None \<Rightarrow> False | Some s \<Rightarrow> s \<noteq> [])"

text \<open>
  A draw property is kept by \<open>_preprocess\<close> as a cache object and read with
  \<open>StyleParser.evalCachedProperty\<close>, \<open>evalProperty\<close> or \<open>parseColor\<close>, all outside the
  style. Such a property is modelled by what reading it gives in a context: a function of
  the context. Where the style tests the cache object itself before reading it
  (\<open>draw.size\<close>, \<open>draw.z\<close>, \<open>draw.placement_spacing\<close>), the function is optional.
\<close>

type_synonym color = "num list"

datatype size_val = Size1 num | Size2 num num

datatype angle_val = ANum num | AAuto

datatype priority_val = PNum num | PFn "context \<Rightarrow> num"

datatype repeat_group_val = RGFn "context \<Rightarrow> string" | RGStr string | RGNone

fun truthy_priority :: "priority_val option \<Rightarrow> bool" where
  "truthy_priority None = False"
| "truthy_priority (Some (PNum n)) = (n \<noteq> 0)"
| "truthy_priority (Some (PFn f)) = True"

fun truthy_repeat_group :: "repeat_group_val \<Rightarrow> bool" where
  "truthy_repeat_group (RGFn f) = True"
| "truthy_repeat_group (RGStr s) = (s \<noteq> [])"
| "truthy_repeat_group RGNone = False"

record outline_draw =
  ol_width :: "context \<Rightarrow> num option"
  ol_color :: "context \<Rightarrow> color option"

record text_draw =
  td_visible :: jsval
  td_optional :: jsval
  td_priority :: "priority_val option"
  td_key :: string
  td_group :: string
  td_layers :: "string list"
  td_order :: num
  td_repeat_group :: repeat_group_val
  td_anchor :: "string list option"
  td_interactive :: jsval

record draw =
  d_color :: "context \<Rightarrow> color option"
  d_texture :: "string option"
  d_sprite :: "context \<Rightarrow> string option"
  d_sprite_default :: "string option"
  d_size :: "(context \<Rightarrow> size_val) option"
  d_outline :: "outline_draw option"
  d_placement :: placement
  d_placement_min_length_ratio :: "context \<Rightarrow> num option"
  d_placement_spacing :: "(context \<Rightarrow> num option) option"
  d_angle :: "context \<Rightarrow> angle_val option"
  d_z :: "(context \<Rightarrow> num option) option"
  d_tile_edges :: jsval
  d_text :: "text_draw option"
  d_key :: string
  d_group :: string
  d_layers :: "string list"
  d_order :: num
  d_interactive :: jsval
  d_collide :: "bool option"
  d_cull_from_tile :: "bool option"
  d_anchor :: "string list option"
  d_offset :: "context \<Rightarrow> pair option"
  d_buffer :: "context \<Rightarrow> pair option"
  d_repeat_distance :: "context \<Rightarrow> num option"
  d_repeat_group :: repeat_group_val
  d_priority :: "priority_val option"

section \<open>Layouts and styles\<close>

text \<open>
  \<open>computeLayout\<close> writes the layout properties onto its target. For a point the target
  is the style object of the feature, so a style is a layout with the point styling
  added; for a text label it is the layout object of the text feature, which
  \<open>addFeature\<close> then points at its parent style.
\<close>

record layout =
  l_id :: "feature option"
  l_units_per_pixel :: num
  l_collide :: bool
  l_cull_from_tile :: bool
  l_move_into_tile :: bool
  l_anchor :: "string list option"
  l_offset :: pair
  l_buffer :: pair
  l_repeat_distance :: "num option"
  l_repeat_group :: "string option"
  l_priority :: num

record style = layout +
  s_color :: "color option"
  s_texture :: "string option"
  s_texcoords :: "num list option"
  s_size :: pair
  s_outline_width :: "num option"
  s_outline_color :: "color option"
  s_outline_edge_pct :: num
  s_placement :: placement
  s_placement_min_length_ratio :: "num option"
  s_placement_spacing :: "num option"
  s_angle :: angle_val
  s_z :: num
  s_tile_edges :: jsval
  s_label_texture :: "string option"

record text_layout = layout +
  tl_parent :: "style option"

record text_feature =
  tf_draw :: text_draw
  tf_text :: string
  tf_text_settings_key :: string
  tf_layout :: text_layout

record sprite_info =
  si_texcoords :: "num list"
  si_size :: pair

record texture_entry =
  te_sprites :: "(string \<rightharpoonup> num list) option"

section \<open>The state of the style and its collaborators\<close>

text \<open>
  A queued work item, and the part of the world \<open>addFeature\<close> and \<open>endData\<close> act on: the
  fields of the style object they read or write, the styles registered with the
  collision manager (\<open>Collision.addStyle\<close>), and the messages handed to \<open>log\<close>. The
  tile data, owned by the base style, has any type \<open>'td\<close>; \<open>st_rest\<close> is everything else
  the collaborators keep on the style object.
\<close>

datatype log_entry =
    Warn_boundary_labels "string option"
  | Debug_missing_sprite string string string
  | Trace_tile_canceled string string

record queue_item =
  q_feature :: feature
  q_draw :: draw
  q_context :: "context"
  q_style :: style
  q_text_feature :: "text_feature option"

record ('td, 'x) points_state =
  st_name :: string
  st_generation :: nat
  st_texture :: "string option"
  st_queues :: "string \<rightharpoonup> queue_item list"
  st_tile_data :: "string \<rightharpoonup> 'td"
  st_texture_missing_sprites :: "(string \<times> string) set"
  st_collision :: "(string \<times> string) list"
  st_logs :: "log_entry list"
  st_rest :: 'x

text \<open>
  What \<open>parseTextFeature\<close> of the text mixin returns: nothing, an array (boundary labels
  with a left and a right text), or one text feature.
\<close>

datatype tf_result = TF_none | TF_array | TF_feature text_feature

text \<open>
  The collaborators outside the style, as parameters: the texture registry and its sprite
  lookup, the defaults and the zero pair of the style parser, \<open>parseTextFeature\<close> of the
  text mixin and \<open>startData\<close> of the base style (both may change the style object).
\<close>

record ('td, 'x) env =
  Texture_textures :: "string \<rightharpoonup> texture_entry"
  Texture_getSpriteInfo :: "string \<Rightarrow> string \<Rightarrow> sprite_info option"
  defaults_outline_width :: num
  defaults_z :: num
  zeroPair :: pair
  parseTextFeature ::
    "('td, 'x) points_state \<Rightarrow> feature \<Rightarrow> text_draw \<Rightarrow> context \<Rightarrow> tile \<Rightarrow>
     tf_result \<times> ('td, 'x) points_state"
  startData :: "('td, 'x) points_state \<Rightarrow> tile \<Rightarrow> ('td, 'x) points_state"

definition collision_group_points :: "('td, 'x) points_state \<Rightarrow> string" where
  "collision_group_points st = st_name st @ ''-points''"

definition collision_group_text :: "('td, 'x) points_state \<Rightarrow> string" where
  "collision_group_text st = st_name st @ ''-text''"

definition Collision_addStyle ::
  "string \<Rightarrow> string \<Rightarrow> ('td, 'x) points_state \<Rightarrow> ('td, 'x) points_state" where
  "Collision_addStyle grp tile_id st = st\<lparr>st_collision := st_collision st @ [(grp, tile_id)]\<rparr>"

definition log :: "log_entry \<Rightarrow> ('td, 'x) points_state \<Rightarrow> ('td, 'x) points_state" where
  "log entry st = st\<lparr>st_logs := st_logs st @ [entry]\<rparr>"

section \<open>Sprites\<close>

definition hasSprites :: "('td, 'x) env \<Rightarrow> string option \<Rightarrow> bool" where
  "hasSprites env texture =
     (case texture of
        None \<Rightarrow> False
      | Some t \<Rightarrow> t \<noteq> [] \<and>
          (case Texture_textures env t of
             None \<Rightarrow> False
           | Some te \<Rightarrow> te_sprites te \<noteq> None))"

text \<open>
  \<open>getSpriteInfo\<close> is only called after \<open>hasSprites\<close> has found the sprites of the texture;
  \<open>sprites_of\<close> reads them. A sprite name that is \<open>undefined\<close> names no sprite.
\<close>

definition sprites_of :: "('td, 'x) env \<Rightarrow> string \<Rightarrow> (string \<rightharpoonup> num list)" where
  "sprites_of env t =
     (case Texture_textures env t of
        None \<Rightarrow> Map.empty
      | Some te \<Rightarrow> (case te_sprites te of None \<Rightarrow> Map.empty | Some m \<Rightarrow> m))"

definition getSpriteInfo ::
  "('td, 'x) env \<Rightarrow> ('td, 'x) points_state \<Rightarrow> string \<Rightarrow> string option \<Rightarrow>
   sprite_info option \<times> ('td, 'x) points_state" where
  "getSpriteInfo env st t sprite =
     (case sprite of
        None \<Rightarrow> (None, st)
      | Some sp \<Rightarrow>
          (let info = (case sprites_of env t sp of
                         None \<Rightarrow> None
                       | Some d \<Rightarrow> Texture_getSpriteInfo env t sp)
           in if sp \<noteq> [] \<and> info = None
              then (info,
                    (if (t, sp) \<notin> st_texture_missing_sprites st
                     then log (Debug_missing_sprite (st_name st) sp t) st
                     else st)
                    \<lparr>st_texture_missing_sprites := insert (t, sp) (st_texture_missing_sprites st)\<rparr>)
              else (info, st)))"

definition parseSprite ::
  "('td, 'x) env \<Rightarrow> ('td, 'x) points_state \<Rightarrow> string \<Rightarrow> draw \<Rightarrow> context \<Rightarrow>
   sprite_info option \<times> ('td, 'x) points_state" where
  "parseSprite env st t draw ctx =
     (case getSpriteInfo env st t (d_sprite draw ctx) of
        (Some info, st1) \<Rightarrow> (Some info, st1)
      | (None, st1) \<Rightarrow> getSpriteInfo env st1 t (d_sprite_default draw))"

section \<open>computeLayout\<close>

definition computeLayout ::
  "('td, 'x) env \<Rightarrow> 'a layout_scheme \<Rightarrow> feature \<Rightarrow> draw \<Rightarrow> context \<Rightarrow> tile \<Rightarrow> 'a layout_scheme" where
  "computeLayout env target feature draw ctx tile =
     (let upp = (if t_units_per_pixel tile \<noteq> 0 then t_units_per_pixel tile else 1);
          rd = d_repeat_distance draw ctx;
          layout1 = target
            \<lparr> l_id := Some feature,
              l_units_per_pixel := upp,
              l_collide := (d_collide draw \<noteq> Some False),
              l_cull_from_tile := (case d_cull_from_tile draw of Some b \<Rightarrow> b | None \<Rightarrow> False),
              l_move_into_tile := False,
              l_anchor := d_anchor draw,
              l_offset := (case d_offset draw ctx of Some p \<Rightarrow> p | None \<Rightarrow> zeroPair env),
              l_buffer := (case d_buffer draw ctx of Some p \<Rightarrow> p | None \<Rightarrow> zeroPair env),
              l_repeat_distance := rd \<rparr>;
          layout2 =
            (case rd of
               None \<Rightarrow> layout1
             | Some r \<Rightarrow>
                 if r \<noteq> 0
                 then layout1
                   \<lparr> l_repeat_distance := Some (r * upp),
                     l_repeat_group := Some
                       (case d_repeat_group draw of
                          RGFn f \<Rightarrow> f ctx
                        | RGStr s \<Rightarrow> s
                        | RGNone \<Rightarrow> d_key draw) \<rparr>
                 else layout1)
      in layout2
           \<lparr> l_priority :=
               (case d_priority draw of
                  Some (PFn f) \<Rightarrow> f ctx
                | Some (PNum n) \<Rightarrow> n
                | None \<Rightarrow> 4294967295) \<rparr>)"

section \<open>addFeature\<close>

text \<open>
  The size of the point (source lines 158-173): the size the draw group gives, a single
  number standing for both dimensions; without one the size of the sprite, or 16 by 16.
\<close>

definition feature_size :: "draw \<Rightarrow> context \<Rightarrow> sprite_info option \<Rightarrow> pair" where
  "feature_size draw ctx sprite =
     (case d_size draw of
        None \<Rightarrow> (case sprite of Some si \<Rightarrow> si_size si | None \<Rightarrow> (16, 16))
      | Some f \<Rightarrow> (case f ctx of Size1 n \<Rightarrow> (n, n) | Size2 w h \<Rightarrow> (w, h)))"

text \<open>The outline width and colour of the draw group (source lines 175-179).\<close>

definition outline_of :: "('td, 'x) env \<Rightarrow> draw \<Rightarrow> context \<Rightarrow> num option \<times> color option" where
  "outline_of env draw ctx =
     (case d_outline draw of
        None \<Rightarrow> (None, None)
      | Some ol \<Rightarrow> (Some (or_num (ol_width ol ctx) (defaults_outline_width env)), ol_color ol ctx))"

text \<open>
  The outline is added to both dimensions when it has a width and a colour (source lines
  181-187); the second component is \<open>outline_edge_pct\<close>.
\<close>

definition size_with_outline :: "num option \<times> color option \<Rightarrow> pair \<Rightarrow> pair \<times> num" where
  "size_with_outline outline sz =
     (case outline of
        (Some w, Some c) \<Rightarrow>
          if w \<noteq> 0
          then ((fst sz + w, snd sz + w), w / min (fst sz + w) (snd sz + w) * 2)
          else (sz, 0)
      | _ \<Rightarrow> (sz, 0))"

text \<open>The clamp of source lines 189-193.\<close>

definition clamp_size :: "pair \<Rightarrow> pair" where
  "clamp_size sz = (min (fst sz) 256, min (snd sz) 256)"

text \<open>
  The point styling once the colour, the texture and the sprite are known (source lines
  151 and 158-212). The style object starts empty: its layout properties are written by
  \<open>computeLayout\<close> afterwards, and stand here with the values of an object that has
  none of them.
\<close>

definition finish_point_style ::
  "('td, 'x) env \<Rightarrow> draw \<Rightarrow> context \<Rightarrow> color option \<Rightarrow> string option \<Rightarrow> sprite_info option \<Rightarrow>
   style" where
  "finish_point_style env draw ctx color texture sprite =
     (let outline = outline_of env draw ctx;
          sized = size_with_outline outline (feature_size draw ctx sprite)
      in \<lparr> l_id = None, l_units_per_pixel = 0, l_collide = False, l_cull_from_tile = False,
           l_move_into_tile = False, l_anchor = None, l_offset = (0, 0), l_buffer = (0, 0),
           l_repeat_distance = None, l_repeat_group = None, l_priority = 0,
           s_color = color,
           s_texture = texture,
           s_texcoords = map_option si_texcoords sprite,
           s_size = clamp_size (fst sized),
           s_outline_width = fst outline,
           s_outline_color = snd outline,
           s_outline_edge_pct = snd sized,
           s_placement = d_placement draw,
           s_placement_min_length_ratio = d_placement_min_length_ratio draw ctx,
           s_placement_spacing =
             (case d_placement_spacing draw of
                Some f \<Rightarrow> if d_placement draw = SPACED then f ctx else None
              | None \<Rightarrow> None),
           s_angle = (case d_angle draw ctx of
                        None \<Rightarrow> ANum 0
                      | Some (ANum n) \<Rightarrow> ANum n
                      | Some AAuto \<Rightarrow> AAuto),
           s_z = (case d_z draw of None \<Rightarrow> defaults_z env | Some f \<Rightarrow> or_num (f ctx) (defaults_z env)),
           s_tile_edges = d_tile_edges draw,
           s_label_texture = None \<rparr>)"

text \<open>
  Source lines 133-156: the colour and the texture, the early return when the draw group
  has neither, and the sprite, with the early return when the texture has sprites and
  the draw group names none of them. \<open>None\<close> is the early return.
\<close>

definition point_style ::
  "('td, 'x) env \<Rightarrow> ('td, 'x) points_state \<Rightarrow> draw \<Rightarrow> context \<Rightarrow>
   style option \<times> ('td, 'x) points_state" where
  "point_style env st draw ctx =
     (let color = d_color draw ctx;
          texture = (case d_texture draw of Some t \<Rightarrow> Some t | None \<Rightarrow> st_texture st)
      in if color = None \<and> \<not> truthy_str texture then (None, st)
         else
           (case texture of
              None \<Rightarrow> (Some (finish_point_style env draw ctx color texture None), st)
            | Some t \<Rightarrow>
                if hasSprites env texture
                then (case parseSprite env st t draw ctx of
                        (Some si, st1) \<Rightarrow>
                          (Some (finish_point_style env draw ctx color texture (Some si)), st1)
                      | (None, st1) \<Rightarrow> (None, st1))
                else (Some (finish_point_style env draw ctx color texture None), st)))"

text \<open>
  Source lines 216-241: the text attached to the point. A text feature gets the style as
  its parent, a priority no better than half a step below the one of the point, and is
  registered with the collision manager.
\<close>

definition text_priority :: "text_draw \<Rightarrow> num \<Rightarrow> num \<Rightarrow> num" where
  "text_priority td text_prio point_prio =
     (if truthy_priority (td_priority td) then max text_prio (point_prio + 0.5)
      else point_prio + 0.5)"

definition attach_text ::
  "('td, 'x) env \<Rightarrow> ('td, 'x) points_state \<Rightarrow> feature \<Rightarrow> draw \<Rightarrow> context \<Rightarrow> tile \<Rightarrow> style \<Rightarrow>
   text_feature option \<times> ('td, 'x) points_state" where
  "attach_text env st feature draw ctx tile sty =
     (case d_text draw of
        None \<Rightarrow> (None, st)
      | Some td \<Rightarrow>
          if td_visible td = JBool False then (None, st)
          else
            (case parseTextFeature env st feature td ctx tile of
               (TF_none, st1) \<Rightarrow> (None, st1)
             | (TF_array, st1) \<Rightarrow>
                 (None,
                  log (Warn_boundary_labels
                        (if d_layers draw = [] then None else Some (last (d_layers draw)))) st1)
             | (TF_feature tf, st1) \<Rightarrow>
                 (Some (tf\<lparr>tf_layout := (tf_layout tf)
                          \<lparr> tl_parent := Some sty,
                            l_priority := text_priority td (l_priority (tf_layout tf)) (l_priority sty),
                            l_move_into_tile := False \<rparr>\<rparr>),
                  Collision_addStyle (collision_group_text st1) (t_id tile) st1)))"

text \<open>
  Source lines 133-241 together: the work item \<open>addFeature\<close> is about to queue, or \<open>None\<close>
  where it returns early.
\<close>

definition addFeature_item ::
  "('td, 'x) env \<Rightarrow> ('td, 'x) points_state \<Rightarrow> feature \<Rightarrow> draw \<Rightarrow> context \<Rightarrow>
   queue_item option \<times> ('td, 'x) points_state" where
  "addFeature_item env st feature draw ctx =
     (case point_style env st draw ctx of
        (None, st1) \<Rightarrow> (None, st1)
      | (Some sty0, st1) \<Rightarrow>
          (let sty = computeLayout env sty0 feature draw ctx (c_tile ctx)
           in case attach_text env st1 feature draw ctx (c_tile ctx) sty of
                (tf, st2) \<Rightarrow>
                  (Some \<lparr> q_feature = feature, q_draw = draw, q_context = ctx, q_style = sty,
                          q_text_feature = tf \<rparr>,
                   st2)))"

definition queueFeature ::
  "('td, 'x) env \<Rightarrow> ('td, 'x) points_state \<Rightarrow> queue_item \<Rightarrow> tile \<Rightarrow> ('td, 'x) points_state" where
  "queueFeature env st q tile =
     (let st1 = (if st_tile_data st (t_id tile) = None \<or> st_queues st (t_id tile) = None
                 then startData env st tile else st)
      in st1\<lparr>st_queues := (st_queues st1)
           (t_id tile \<mapsto> (case st_queues st1 (t_id tile) of None \<Rightarrow> [] | Some qs \<Rightarrow> qs) @ [q])\<rparr>)"

definition addFeature ::
  "('td, 'x) env \<Rightarrow> ('td, 'x) points_state \<Rightarrow> feature \<Rightarrow> draw \<Rightarrow> context \<Rightarrow> ('td, 'x) points_state" where
  "addFeature env st feature draw ctx =
     (if t_generation (c_tile ctx) \<noteq> st_generation st then st
      else
        (case addFeature_item env st feature draw ctx of
           (None, st1) \<Rightarrow> st1
         | (Some q, st1) \<Rightarrow>
             (let st2 = queueFeature env st1 q (c_tile ctx)
              in Collision_addStyle (collision_group_points st2) (t_id (c_tile ctx)) st2)))"

section \<open>buildLabels\<close>

text \<open>
  The label constructor \<open>LabelPoint\<close>, the line placement \<open>placePointsOnLine\<close> and the
  centroids of \<open>Geo\<close> are collaborators outside the style: parameters. A label has any
  type \<open>'l\<close>. The loops of \<open>buildLabels\<close> push one label after the other onto the result,
  in the order of the arrays they walk; an array that is a number has no \<open>length\<close>, so a
  loop over it does not run.
\<close>

record 'l label_env =
  LabelPoint :: "coords \<Rightarrow> pair \<Rightarrow> style \<Rightarrow> 'l"
  placePointsOnLine :: "coords \<Rightarrow> pair \<Rightarrow> style \<Rightarrow> 'l list"
  Geo_centroid :: "coords \<Rightarrow> coords"
  Geo_multiCentroid :: "coords \<Rightarrow> coords"

fun elems :: "coords \<Rightarrow> coords list" where
  "elems (Arr xs) = xs"
| "elems (Num n) = []"

definition buildLabels :: "'l label_env \<Rightarrow> pair \<Rightarrow> geometry \<Rightarrow> style \<Rightarrow> 'l list" where
  "buildLabels le sz geometry options =
     (if g_type geometry = ''Point''
      then [LabelPoint le (g_coordinates geometry) sz options]
      else if g_type geometry = ''MultiPoint''
      then map (\<lambda>point. LabelPoint le point sz options) (elems (g_coordinates geometry))
      else if g_type geometry = ''LineString''
      then placePointsOnLine le (g_coordinates geometry) sz options
      else if g_type geometry = ''MultiLineString''
      then concat (map (\<lambda>line. placePointsOnLine le line sz options)
                    (elems (g_coordinates geometry)))
      else if g_type geometry = ''Polygon''
      then (if s_placement options = CENTROID
            then [LabelPoint le (Geo_centroid le (g_coordinates geometry)) sz options]
            else concat (map (\<lambda>ring. placePointsOnLine le ring sz options)
                          (elems (g_coordinates geometry))))
      else if g_type geometry = ''MultiPolygon''
      then (if s_placement options = CENTROID
            then [LabelPoint le (Geo_multiCentroid le (g_coordinates geometry)) sz options]
            else concat (map (\<lambda>rings. concat (map (\<lambda>ring. placePointsOnLine le ring sz options)
                                                (elems rings)))
                          (elems (g_coordinates geometry))))
      else [])"

section \<open>endData\<close>

text \<open>
  A point object and a text object refer to each other. The two arrays \<open>point_objs\<close> and
  \<open>text_objs\<close> only grow, so an object is named by its index in its array: \<open>to_linked\<close>
  is the index of the point object a text object is linked to, \<open>po_linked\<close> the index of
  the text object a point object is linked to, \<open>None\<close> where the point object has no
  \<open>linked\<close> property.
\<close>

record 'l point_obj =
  po_feature :: feature
  po_draw :: draw
  po_context :: "context"
  po_style :: style
  po_label :: 'l
  po_linked :: "nat option"

record 'l text_obj =
  to_feature :: feature
  to_draw :: text_draw
  to_context :: "context"
  to_text :: string
  to_text_settings_key :: string
  to_layout :: text_layout
  to_point_label :: 'l
  to_linked :: nat

datatype js_error = TypeError

text \<open>
  The body of the loop over the labels of one queued feature (source lines 301-331).
  Reading \<open>q.draw.text.optional\<close> throws when the draw group has no text.
\<close>

fun link_labels ::
  "queue_item \<Rightarrow> 'l list \<Rightarrow> 'l point_obj list \<times> 'l text_obj list \<Rightarrow>
   js_error + 'l point_obj list \<times> 'l text_obj list" where
  "link_labels q [] (point_objs, text_objs) = Inr (point_objs, text_objs)"
| "link_labels q (label # labels) (point_objs, text_objs) =
     (let point_obj = \<lparr> po_feature = q_feature q, po_draw = q_draw q, po_context = q_context q,
                         po_style = q_style q, po_label = label, po_linked = None \<rparr>
      in case q_text_feature q of
           None \<Rightarrow> link_labels q labels (point_objs @ [point_obj], text_objs)
         | Some tf \<Rightarrow>
             (let text_obj = \<lparr> to_feature = q_feature q, to_draw = tf_draw tf,
                                to_context = q_context q, to_text = tf_text tf,
                                to_text_settings_key = tf_text_settings_key tf,
                                to_layout = tf_layout tf, to_point_label = label,
                                to_linked = length point_objs \<rparr>
              in case d_text (q_draw q) of
                   None \<Rightarrow> Inl TypeError
                 | Some td \<Rightarrow>
                     if \<not> truthy (td_optional td)
                     then link_labels q labels
                            (point_objs @ [point_obj\<lparr>po_linked := Some (length text_objs)\<rparr>],
                             text_objs @ [text_obj])
                     else link_labels q labels
                            (point_objs @ [point_obj], text_objs @ [text_obj])))"

text \<open>The loop over the queue (source lines 295-332).\<close>

fun build_objs ::
  "'l label_env \<Rightarrow> queue_item list \<Rightarrow> 'l point_obj list \<times> 'l text_obj list \<Rightarrow>
   js_error + 'l point_obj list \<times> 'l text_obj list" where
  "build_objs le [] acc = Inr acc"
| "build_objs le (q # queue) acc =
     (case link_labels q
             (buildLabels le (s_size (q_style q)) (f_geometry (q_feature q)) (q_style q)) acc of
        Inl e \<Rightarrow> Inl e
      | Inr acc' \<Rightarrow> build_objs le queue acc')"

text \<open>
  What \<open>endData\<close> returns: the promise \<open>Promise.resolve()\<close>, or the promise that joins the
  two collision passes it has started, \<open>Collision.collide\<close> on the point objects and
  \<open>collideAndRenderTextLabels\<close> on the text objects. Both passes and the mesh building
  that follows them are the work of collaborators; the pending promise stands for them
  through the arguments the passes were started with.
\<close>

record 'l collision_passes =
  cp_tile_id :: string
  cp_points_group :: string
  cp_point_objs :: "'l point_obj list"
  cp_text_group :: string
  cp_text_objs :: "'l text_obj list"

datatype 'l end_result = Resolved_undefined | Pending "'l collision_passes"

definition endData ::
  "'l label_env \<Rightarrow> ('td, 'x) points_state \<Rightarrow> tile \<Rightarrow>
   (js_error + 'l end_result) \<times> ('td, 'x) points_state" where
  "endData le st tile =
     (if t_canceled tile
      then (Inr Resolved_undefined, log (Trace_tile_canceled (st_name st) (t_key tile)) st)
      else
        (let queue = st_queues st (t_id tile);
             st1 = st\<lparr>st_queues := (st_queues st)(t_id tile := None)\<rparr>
         in case queue of
              None \<Rightarrow> (Inl TypeError, st1)
            | Some items \<Rightarrow>
                (case build_objs le items ([], []) of
                   Inl e \<Rightarrow> (Inl e, st1)
                 | Inr (point_objs, text_objs) \<Rightarrow>
                     (Inr (Pending \<lparr> cp_tile_id = t_id tile,
                                      cp_points_group = collision_group_points st1,
                                      cp_point_objs = point_objs,
                                      cp_text_group = collision_group_text st1,
                                      cp_text_objs = text_objs \<rparr>),
                      st1))))"

text \<open>
  The part of \<open>_preprocess\<close> that prepares the text of a draw group (source lines
  421-432). \<open>preprocessText\<close> belongs to the text mixin and \<open>default_anchor\<close> is a
  property of the style: both are parameters. The text inherits from the point, and
  \<open>optional\<close> becomes a boolean, \<open>false\<close> unless it was the boolean \<open>true\<close>.
\<close>

definition preprocess_text ::
  "(text_draw option \<Rightarrow> text_draw option) \<Rightarrow> string list \<Rightarrow> draw \<Rightarrow> draw" where
  "preprocess_text preprocessText default_anchor draw =
     (case preprocessText (d_text draw) of
        None \<Rightarrow> draw\<lparr>d_text := None\<rparr>
      | Some td \<Rightarrow>
          draw\<lparr>d_text := Some (td
            \<lparr> td_key := d_key draw,
              td_group := d_group draw,
              td_layers := d_layers draw,
              td_order := d_order draw,
              td_repeat_group :=
                (if truthy_repeat_group (td_repeat_group td) then td_repeat_group td
                 else d_repeat_group draw),
              td_anchor := (case td_anchor td of Some a \<Rightarrow> Some a | None \<Rightarrow> Some default_anchor),
              td_optional := (case td_optional td of JBool b \<Rightarrow> JBool b | _ \<Rightarrow> JBool False),
              td_interactive :=
                (if truthy (td_interactive td) then td_interactive td else d_interactive draw) \<rparr>)\<rparr>)"

section \<open>buildArticulatedLabel\<close>

text \<open>
  A curved label and the style of its text. \<open>cs_size\<close> is \<open>style.size[label.type]\<close> and
  \<open>cs_texcoords\<close> is \<open>style.texcoords[label.type]\<close>, each entry standing for its
  \<open>texcoord\<close> property. Reading an array past its end gives \<open>undefined\<close>.
\<close>

record curved_label =
  cl_position :: pair
  cl_angle :: num
  cl_offset :: "pair option"
  cl_num_segments :: nat
  cl_angles :: "num list list"
  cl_pre_angles :: "num list list"
  cl_offsets :: "num list list"

record curved_style =
  cs_size :: "pair list"
  cs_texcoords_stroke :: "num list list"
  cs_texcoords :: "num list list"
  cs_label_textures :: "string list"
  cs_label_texture :: "string option"
  cs_texture :: "string option"

definition nth_opt :: "'a list \<Rightarrow> nat \<Rightarrow> 'a option" where
  "nth_opt xs i = (if i < length xs then Some (xs ! i) else None)"

record variant =
  v_key :: string
  v_order :: nat

definition meshVariantTypeForDraw :: "string \<Rightarrow> curved_style \<Rightarrow> variant" where
  "meshVariantTypeForDraw default_mesh_variant draw =
     \<lparr> v_key = or_str (cs_label_texture draw) (or_str (cs_texture draw) default_mesh_variant),
       v_order = (if truthy_str (cs_label_texture draw) then 1 else 0) \<rparr>"

text \<open>
  The meshes of a tile belong to the base style. \<open>getTileMesh\<close> finds the mesh of a tile
  for a variant: a parameter, giving a mesh of any type \<open>'m\<close>, which also stands for the
  vertex data of that mesh. What the style itself does to a mesh is to set three
  uniforms; what \<open>buildQuadsForPoints\<close> does is kept as the sequence of the calls made,
  each with all its arguments, and the count it returns is the parameter \<open>geom_of\<close>.
\<close>

record mesh_uniforms =
  u_texture :: "string option"
  u_point_type :: nat
  u_apply_color_blocks :: bool

record ('m, 'vt) quad_call =
  qc_points :: "pair list"
  qc_vertex_data :: 'm
  qc_vertex_template :: 'vt
  qc_indices :: quad_indices
  qc_options :: quad_options

record ('m, 'vt) world =
  w_uniforms :: "'m \<Rightarrow> mesh_uniforms option"
  w_quads :: "('m, 'vt) quad_call list"

record ('m, 'vt) mesh_env =
  getTileMesh :: "tile \<Rightarrow> variant \<Rightarrow> 'm"
  layout_of_mesh :: "'m \<Rightarrow> vertex_layout"
  default_mesh_variant :: string
  geom_of :: "('m, 'vt) quad_call \<Rightarrow> nat"

definition buildQuadsForPoints ::
  "('m, 'vt) mesh_env \<Rightarrow> pair list \<Rightarrow> 'm \<Rightarrow> 'vt \<Rightarrow> quad_indices \<Rightarrow> quad_options \<Rightarrow>
   ('m, 'vt) world \<Rightarrow> nat \<times> ('m, 'vt) world" where
  "buildQuadsForPoints me points vertex_data vertex_template indices options w =
     (let call = \<lparr> qc_points = points, qc_vertex_data = vertex_data,
                    qc_vertex_template = vertex_template, qc_indices = indices,
                    qc_options = options \<rparr>
      in (geom_of me call, w\<lparr>w_quads := w_quads w @ [call]\<rparr>))"

text \<open>
  One round of a pass (source lines 721-752 and 757-788): the style is pointed at the
  label texture of the segment, the mesh of that texture gets its uniforms, and the quad
  of the segment is built with the texture coordinates \<open>texcoord\<close> of the pass.
\<close>

definition segment_quad ::
  "('m, 'vt) mesh_env \<Rightarrow> curved_label \<Rightarrow> 'vt \<Rightarrow> tile \<Rightarrow> num list option \<Rightarrow> nat \<Rightarrow>
   curved_style \<times> ('m, 'vt) world \<times> nat \<Rightarrow> curved_style \<times> ('m, 'vt) world \<times> nat" where
  "segment_quad me label vertex_template tile texcoord i state =
     (case state of
        (sty, w, geom_count) \<Rightarrow>
          (let sz = nth_opt (cs_size sty) i;
               sty1 = sty\<lparr>cs_label_texture := nth_opt (cs_label_textures sty) i\<rparr>;
               mesh_data = getTileMesh me tile (meshVariantTypeForDraw (default_mesh_variant me) sty1);
               w1 = w\<lparr>w_uniforms := (w_uniforms w)
                      (mesh_data := Some \<lparr> u_texture = cs_label_texture sty1,
                                           u_point_type = TANGRAM_POINT_TYPE_LABEL,
                                           u_apply_color_blocks = False \<rparr>)\<rparr>;
               offset = (case cl_offset label of None \<Rightarrow> (0, 0) | Some p \<Rightarrow> p);
               built = buildQuad (buildQuadsForPoints me) (layout_of_mesh me)
                         [cl_position label] sz (cl_angle label)
                         (nth_opt (cl_angles label) i) (nth_opt (cl_pre_angles label) i)
                         (Some offset) (nth_opt (cl_offsets label) i) texcoord True
                         mesh_data vertex_template w1
           in (sty1, snd built, geom_count + fst built)))"

text \<open>The pass for the stroke (source lines 720-753).\<close>

function stroke_pass ::
  "('m, 'vt) mesh_env \<Rightarrow> curved_label \<Rightarrow> 'vt \<Rightarrow> tile \<Rightarrow> nat \<Rightarrow>
   curved_style \<times> ('m, 'vt) world \<times> nat \<Rightarrow> curved_style \<times> ('m, 'vt) world \<times> nat" where
  "stroke_pass me label vertex_template tile i state =
     (if i < cl_num_segments label
      then stroke_pass me label vertex_template tile (Suc i)
             (segment_quad me label vertex_template tile
                (nth_opt (cs_texcoords_stroke (fst state)) i) i state)
      else state)"
  by pat_completeness auto
termination
  by (relation "measure (\<lambda>(me, label, vertex_template, tile, i, state). cl_num_segments label - i)")
     auto

text \<open>
  The pass for the fill (source lines 756-789). Reading \<open>texcoord\<close> from an entry of
  \<open>style.texcoords[label.type]\<close> that does not exist throws.
\<close>

function fill_pass ::
  "('m, 'vt) mesh_env \<Rightarrow> curved_label \<Rightarrow> 'vt \<Rightarrow> tile \<Rightarrow> nat \<Rightarrow>
   curved_style \<times> ('m, 'vt) world \<times> nat \<Rightarrow>
   js_error + curved_style \<times> ('m, 'vt) world \<times> nat" where
  "fill_pass me label vertex_template tile i state =
     (if i < cl_num_segments label
      then (case nth_opt (cs_texcoords (fst state)) i of
              None \<Rightarrow> Inl TypeError
            | Some texcoord \<Rightarrow>
                fill_pass me label vertex_template tile (Suc i)
                  (segment_quad me label vertex_template tile (Some texcoord) i state))
      else Inr state)"
  by pat_completeness auto
termination
  by (relation "measure (\<lambda>(me, label, vertex_template, tile, i, state). cl_num_segments label - i)")
     auto

text \<open>
  \<open>buildArticulatedLabel\<close>: the vertex template comes from \<open>makeVertexTemplate\<close>, whose
  result is the argument \<open>vertex_template\<close>. The result is the geometry count, with the
  style and the world as the two passes leave them.
\<close>

definition buildArticulatedLabel ::
  "('m, 'vt) mesh_env \<Rightarrow> 'vt \<Rightarrow> curved_label \<Rightarrow> curved_style \<Rightarrow> tile \<Rightarrow> ('m, 'vt) world \<Rightarrow>
   js_error + nat \<times> curved_style \<times> ('m, 'vt) world" where
  "buildArticulatedLabel me vertex_template label sty tile w =
     (case fill_pass me label vertex_template tile 0
             (stroke_pass me label vertex_template tile 0 (sty, w, 0)) of
        Inl e \<Rightarrow> Inl e
      | Inr (sty', w', geom_count) \<Rightarrow> Inr (geom_count, sty', w'))"

text \<open>
  The call of \<open>buildQuadsForPoints\<close> that a round makes for segment \<open>i\<close>, written out: it
  depends on the label, on the arrays of the style and on the texture coordinates of the
  pass, and not on the rounds before it.
\<close>

definition segment_call ::
  "('m, 'vt) mesh_env \<Rightarrow> curved_label \<Rightarrow> 'vt \<Rightarrow> tile \<Rightarrow> curved_style \<Rightarrow> num list option \<Rightarrow> nat \<Rightarrow>
   ('m, 'vt) quad_call" where
  "segment_call me label vertex_template tile sty texcoord i =
     (let mesh_data = getTileMesh me tile
            (meshVariantTypeForDraw (default_mesh_variant me)
               (sty\<lparr>cs_label_texture := nth_opt (cs_label_textures sty) i\<rparr>))
      in \<lparr> qc_points = [cl_position label],
           qc_vertex_data = mesh_data,
           qc_vertex_template = vertex_template,
           qc_indices = buildQuad_indices (layout_of_mesh me mesh_data),
           qc_options =
             buildQuad_options (nth_opt (cs_size sty) i) (cl_angle label)
               (nth_opt (cl_angles label) i) (nth_opt (cl_pre_angles label) i)
               (Some (case cl_offset label of None \<Rightarrow> (0, 0) | Some p \<Rightarrow> p))
               (nth_opt (cl_offsets label) i) texcoord True \<rparr>)"

text \<open>
  The linkage between the two arrays that \<open>endData\<close> builds, as a predicate: every text
  object is linked to a point object of the same feature and label, no two text objects
  to the same one; that point object is linked back to the text object exactly when the
  text of its draw group is not optional; and a point object that is linked to a text
  object is the one that text object is linked to.
\<close>

definition links_ok :: "'l point_obj list \<Rightarrow> 'l text_obj list \<Rightarrow> bool" where
  "links_ok ps ts \<longleftrightarrow>
     (\<forall>j < length ts.
        to_linked (ts ! j) < length ps
      \<and> po_label (ps ! to_linked (ts ! j)) = to_point_label (ts ! j)
      \<and> po_feature (ps ! to_linked (ts ! j)) = to_feature (ts ! j)
      \<and> (\<exists>td. d_text (po_draw (ps ! to_linked (ts ! j))) = Some td
            \<and> po_linked (ps ! to_linked (ts ! j)) =
                (if truthy (td_optional td) then None else Some j)))
   \<and> (\<forall>j < length ts. \<forall>k < length ts. to_linked (ts ! j) = to_linked (ts ! k) \<longrightarrow> j = k)
   \<and> (\<forall>i < length ps. \<forall>j. po_linked (ps ! i) = Some j \<longrightarrow>
          j < length ts \<and> to_linked (ts ! j) = i)"

section \<open>Example inputs\<close>

text \<open>
  A tile of generation 1, a point feature and a polygon with a hole, a red draw group of
  size 500 by 10 and priority 5 with a required text of declared priority 3, and
  stand-ins for the collaborators: no textures, a text mixin that returns one text
  feature whose layout has the declared priority, a label that is its position, a line
  placement that puts a label on every vertex, and a centroid that is the first vertex of
  the outer ring.
\<close>

definition example_tile :: tile where
  "example_tile =
     \<lparr> t_id = ''t1'', t_key = ''3/4/5'', t_generation = 1, t_canceled = False,
       t_units_per_pixel = 2 \<rparr>"

definition example_context :: "context" where
  "example_context = \<lparr> c_tile = example_tile \<rparr>"

definition example_feature :: feature where
  "example_feature =
     \<lparr> f_geometry = \<lparr> g_type = ''Point'', g_coordinates = Arr [Num 1, Num 2] \<rparr>,
       f_properties = [] \<rparr>"

definition example_polygon :: geometry where
  "example_polygon =
     \<lparr> g_type = ''Polygon'',
       g_coordinates =
         Arr [Arr [Arr [Num 0, Num 0], Arr [Num 8, Num 0], Arr [Num 8, Num 8], Arr [Num 0, Num 0]],
              Arr [Arr [Num 1, Num 1], Arr [Num 2, Num 1], Arr [Num 2, Num 2], Arr [Num 1, Num 1]]] \<rparr>"

definition example_text_draw :: text_draw where
  "example_text_draw =
     \<lparr> td_visible = JUndefined, td_optional = JBool False, td_priority = Some (PNum 3),
       td_key = ''pois'', td_group = ''icons'', td_layers = [''pois''], td_order = 0,
       td_repeat_group = RGNone, td_anchor = Some [''bottom''], td_interactive = JUndefined \<rparr>"

definition example_draw :: draw where
  "example_draw =
     \<lparr> d_color = (\<lambda>c. Some [1, 0, 0, 1]),
       d_texture = None,
       d_sprite = (\<lambda>c. None),
       d_sprite_default = None,
       d_size = Some (\<lambda>c. Size2 500 10),
       d_outline = None,
       d_placement = VERTEX,
       d_placement_min_length_ratio = (\<lambda>c. Some 1),
       d_placement_spacing = Some (\<lambda>c. Some 80),
       d_angle = (\<lambda>c. None),
       d_z = None,
       d_tile_edges = JUndefined,
       d_text = Some example_text_draw,
       d_key = ''pois'',
       d_group = ''icons'',
       d_layers = [''pois''],
       d_order = 0,
       d_interactive = JUndefined,
       d_collide = None,
       d_cull_from_tile = None,
       d_anchor = None,
       d_offset = (\<lambda>c. None),
       d_buffer = (\<lambda>c. None),
       d_repeat_distance = (\<lambda>c. None),
       d_repeat_group = RGNone,
       d_priority = Some (PNum 5) \<rparr>"

definition example_text_feature :: "text_draw \<Rightarrow> text_feature" where
  "example_text_feature td =
     \<lparr> tf_draw = td, tf_text = ''Cafe'', tf_text_settings_key = ''12px sans'',
       tf_layout =
         \<lparr> l_id = None, l_units_per_pixel = 2, l_collide = True, l_cull_from_tile = False,
           l_move_into_tile = True, l_anchor = td_anchor td, l_offset = (0, 0),
           l_buffer = (0, 0), l_repeat_distance = None, l_repeat_group = None,
           l_priority = (case td_priority td of Some (PNum n) \<Rightarrow> n | _ \<Rightarrow> 4294967295),
           tl_parent = None \<rparr> \<rparr>"

definition example_env :: "(unit, unit) env" where
  "example_env =
     \<lparr> Texture_textures = Map.empty,
       Texture_getSpriteInfo = (\<lambda>t sp. None),
       defaults_outline_width = 0,
       defaults_z = 0,
       zeroPair = (0, 0),
       parseTextFeature = (\<lambda>st feature td ctx tile. (TF_feature (example_text_feature td), st)),
       startData = (\<lambda>st tile. st\<lparr>st_tile_data := (st_tile_data st)(t_id tile \<mapsto> ())\<rparr>) \<rparr>"

definition example_state :: "(unit, unit) points_state" where
  "example_state =
     \<lparr> st_name = ''points'', st_generation = 1, st_texture = None, st_queues = Map.empty,
       st_tile_data = Map.empty, st_texture_missing_sprites = {}, st_collision = [],
       st_logs = [], st_rest = () \<rparr>"

definition example_style :: style where
  "example_style =
     computeLayout example_env
       (finish_point_style example_env example_draw example_context (Some [1, 0, 0, 1]) None None)
       example_feature example_draw example_context example_tile"

definition example_label_env :: "coords label_env" where
  "example_label_env =
     \<lparr> LabelPoint = (\<lambda>position sz options. position),
       placePointsOnLine = (\<lambda>line sz options. elems line),
       Geo_centroid = (\<lambda>polygon. case elems polygon of
                                      [] \<Rightarrow> Arr []
                                    | ring # rings \<Rightarrow> (case elems ring of [] \<Rightarrow> Arr [] | p # ps \<Rightarrow> p)),
       Geo_multiCentroid = (\<lambda>polygons. Arr []) \<rparr>"

text \<open>
  A curved label of two segments with the style of its text, meshes named by the key of
  their variant, and a builder that counts two triangles for every quad.
\<close>

definition example_curved_label :: curved_label where
  "example_curved_label =
     \<lparr> cl_position = (3, 4), cl_angle = 0, cl_offset = None, cl_num_segments = 2,
       cl_angles = [ [0.1], [0.2] ], cl_pre_angles = [ [0], [0.1] ], cl_offsets = [ [0], [7] ] \<rparr>"

definition example_curved_style :: curved_style where
  "example_curved_style =
     \<lparr> cs_size = [(7, 12), (6, 12)],
       cs_texcoords_stroke = [ [0, 0, 0.1, 0.1], [0.1, 0, 0.2, 0.1] ],
       cs_texcoords = [ [0, 0.5, 0.1, 0.6], [0.1, 0.5, 0.2, 0.6] ],
       cs_label_textures = [''atlas0'', ''atlas0''],
       cs_label_texture = None,
       cs_texture = None \<rparr>"

definition example_mesh_env :: "(string, unit) mesh_env" where
  "example_mesh_env =
     \<lparr> getTileMesh = (\<lambda>tile v. v_key v),
       layout_of_mesh = (\<lambda>m. [''a_position'' \<mapsto> 0, ''a_shape'' \<mapsto> 4, ''a_texcoord'' \<mapsto> 8,
                                ''a_offset'' \<mapsto> 10]),
       default_mesh_variant = ''0'',
       geom_of = (\<lambda>call. 2) \<rparr>"

definition example_world :: "(string, unit) world" where
  "example_world = \<lparr> w_uniforms = (\<lambda>m. None), w_quads = [] \<rparr>"

section \<open>Properties of buildQuad\<close>





text \<open>
  Claim C5. Every quad the encoder builds goes through \<open>buildQuad\<close>, and the options it
  passes always carry the same normalization constants: \<open>128/\<pi>\<close> for the per-segment
  pre-angles, \<open>16384/\<pi>\<close> for the per-segment angles, 64 for the per-segment offsets and
  65535 for the texture coordinates.
\<close>

theorem buildQuad_normalization_constants:
  "buildQuad bqfp layout_of points sz angle angles pre_angles offset offsets texcoord_scale curve
      vertex_data vertex_template =
     bqfp points vertex_data vertex_template (buildQuad_indices (layout_of vertex_data))
       (buildQuad_options sz angle angles pre_angles offset offsets texcoord_scale curve)
   \<and> o_pre_angles_normalize
       (buildQuad_options sz angle angles pre_angles offset offsets texcoord_scale curve)
       = 128 / pi
   \<and> o_angles_normalize
       (buildQuad_options sz angle angles pre_angles offset offsets texcoord_scale curve)
       = 16384 / pi
   \<and> o_offsets_normalize
       (buildQuad_options sz angle angles pre_angles offset offsets texcoord_scale curve)
       = 64
   \<and> o_texcoord_normalize
       (buildQuad_options sz angle angles pre_angles offset offsets texcoord_scale curve)
       = 65535"
  by (simp add: buildQuad_def buildQuad_options_def pre_angles_normalize_def
      angles_normalize_def offsets_normalize_def texcoord_normalize_def)

section \<open>Properties of buildLabels\<close>

text \<open>
  Claim C7. For a geometry whose type is none of Point, MultiPoint, LineString,
  MultiLineString, Polygon and MultiPolygon, \<open>buildLabels\<close> returns the empty list of
  labels. It is a total function of the model: no branch of it throws.
\<close>

theorem buildLabels_unknown_type:
  "g_type geometry \<notin> {''Point'', ''MultiPoint'', ''LineString'', ''MultiLineString'',
                        ''Polygon'', ''MultiPolygon''}
   \<Longrightarrow> buildLabels le sz geometry options = []"
  by (simp add: buildLabels_def)

theorem buildLabels_unknown_type_witness:
  "buildLabels example_label_env (16, 16)
     \<lparr> g_type = ''GeometryCollection'', g_coordinates = Arr [] \<rparr> example_style = []"
  using buildLabels_unknown_type [of "\<lparr> g_type = ''GeometryCollection'', g_coordinates = Arr [] \<rparr>"
      example_label_env "(16, 16)" example_style]
  by simp

text \<open>
  Claim C6. For a Polygon with placement \<open>CENTROID\<close>, \<open>buildLabels\<close> returns exactly one
  label, built at \<open>Geo.centroid\<close> of the coordinates, whatever the number of rings; for a
  MultiPolygon exactly one label at \<open>Geo.multiCentroid\<close>. With any other placement it
  returns the labels that \<open>placePointsOnLine\<close> puts on every ring of the polygon, or on
  every ring of every polygon, in order.
\<close>

theorem buildLabels_polygon_centroid:
  "(g_type geometry = ''Polygon'' \<longrightarrow>
      (s_placement options = CENTROID \<longrightarrow>
         buildLabels le sz geometry options =
           [LabelPoint le (Geo_centroid le (g_coordinates geometry)) sz options]
         \<and> length (buildLabels le sz geometry options) = 1)
    \<and> (s_placement options \<noteq> CENTROID \<longrightarrow>
         buildLabels le sz geometry options =
           concat (map (\<lambda>ring. placePointsOnLine le ring sz options)
                     (elems (g_coordinates geometry)))))
   \<and> (g_type geometry = ''MultiPolygon'' \<longrightarrow>
      (s_placement options = CENTROID \<longrightarrow>
         buildLabels le sz geometry options =
           [LabelPoint le (Geo_multiCentroid le (g_coordinates geometry)) sz options]
         \<and> length (buildLabels le sz geometry options) = 1)
    \<and> (s_placement options \<noteq> CENTROID \<longrightarrow>
         buildLabels le sz geometry options =
           concat (map (\<lambda>rings. concat (map (\<lambda>ring. placePointsOnLine le ring sz options)
                                           (elems rings)))
                     (elems (g_coordinates geometry)))))"
  by (simp add: buildLabels_def)

theorem buildLabels_polygon_centroid_witness:
  "buildLabels example_label_env (16, 16) example_polygon (example_style\<lparr>s_placement := CENTROID\<rparr>)
     = [Arr [Num 0, Num 0]]
   \<and> length (buildLabels example_label_env (16, 16) example_polygon example_style) = 8"
  using buildLabels_polygon_centroid [of example_polygon "example_style\<lparr>s_placement := CENTROID\<rparr>"
      example_label_env "(16, 16)"]
    buildLabels_polygon_centroid [of example_polygon example_style example_label_env "(16, 16)"]
  by (simp add: example_polygon_def example_label_env_def example_style_def computeLayout_def
      finish_point_style_def example_draw_def Let_def)

section \<open>Properties of addFeature\<close>

text \<open>
  Claim C9. When the generation of the tile of the context differs from the generation of
  the style, \<open>addFeature\<close> returns at once: the state of the style, with its queues, its
  tile data, the collision registrations and the log, is the one it started from.
\<close>

theorem addFeature_stale_generation:
  "t_generation (c_tile ctx) \<noteq> st_generation st \<Longrightarrow> addFeature env st feature draw ctx = st"
  by (simp add: addFeature_def)

theorem addFeature_stale_generation_witness:
  "t_generation (c_tile example_context) \<noteq> st_generation (example_state\<lparr>st_generation := 2\<rparr>)
   \<and> addFeature example_env (example_state\<lparr>st_generation := 2\<rparr>) example_feature example_draw
        example_context = example_state\<lparr>st_generation := 2\<rparr>"
  using addFeature_stale_generation [of example_context "example_state\<lparr>st_generation := 2\<rparr>"
      example_env example_feature example_draw]
  by (simp add: example_context_def example_tile_def example_state_def)

text \<open>What a queued work item is made of, and that \<open>addFeature\<close> puts it last on the queue of the tile.\<close>

lemma addFeature_item_Some:
  assumes "addFeature_item env st feature draw ctx = (Some q, st')"
  shows "\<exists>sty0 st1. point_style env st draw ctx = (Some sty0, st1)
          \<and> q_style q = computeLayout env sty0 feature draw ctx (c_tile ctx)
          \<and> attach_text env st1 feature draw ctx (c_tile ctx) (q_style q) = (q_text_feature q, st')
          \<and> q_feature q = feature \<and> q_draw q = draw \<and> q_context q = ctx"
  using assms
  by (auto simp: addFeature_item_def Let_def split: option.splits prod.splits)

lemma queueFeature_queue:
  "\<exists>qs. st_queues (queueFeature env st q tile) (t_id tile) = Some (qs @ [q])"
  by (simp add: queueFeature_def Let_def)

lemma addFeature_queues_item:
  assumes "t_generation (c_tile ctx) = st_generation st"
    and "addFeature_item env st feature draw ctx = (Some q, st')"
  shows "\<exists>qs. st_queues (addFeature env st feature draw ctx) (t_id (c_tile ctx)) = Some (qs @ [q])"
  using assms queueFeature_queue [of env st' q "c_tile ctx"]
  by (auto simp: addFeature_def Let_def Collision_addStyle_def)

text \<open>The work item of the example inputs.\<close>

lemma example_item:
  "fst (addFeature_item example_env example_state example_feature example_draw example_context)
     = Some \<lparr> q_feature = example_feature, q_draw = example_draw, q_context = example_context,
              q_style = example_style,
              q_text_feature = Some ((example_text_feature example_text_draw)
                \<lparr>tf_layout := (tf_layout (example_text_feature example_text_draw))
                   \<lparr> tl_parent := Some example_style,
                     l_priority := 5.5,
                     l_move_into_tile := False \<rparr>\<rparr>) \<rparr>"
  apply (simp add: addFeature_item_def point_style_def Let_def example_draw_def truthy_str_def
      example_state_def attach_text_def example_env_def example_text_draw_def example_style_def
      example_context_def text_priority_def)
  apply (simp add: computeLayout_def example_text_feature_def Let_def)
  done

lemma example_item_pair:
  "addFeature_item example_env example_state example_feature example_draw example_context =
     (Some (the (fst (addFeature_item example_env example_state example_feature example_draw
                        example_context))),
      snd (addFeature_item example_env example_state example_feature example_draw example_context))"
  using example_item by (simp add: prod_eq_iff)

text \<open>The size of a queued style is the clamp of the size with the outline.\<close>

lemma point_style_Some:
  assumes "point_style env st draw ctx = (Some sty0, st1)"
  shows "\<exists>color texture sprite. sty0 = finish_point_style env draw ctx color texture sprite"
  using assms
  by (auto simp: point_style_def Let_def split: if_splits option.splits prod.splits)

lemma finish_point_style_size:
  "s_size (finish_point_style env draw ctx color texture sprite) =
     clamp_size (fst (size_with_outline (outline_of env draw ctx) (feature_size draw ctx sprite)))"
  by (simp add: finish_point_style_def Let_def)

lemma computeLayout_size: "s_size (computeLayout env target feature draw ctx tile) = s_size target"
  by (simp add: computeLayout_def Let_def split: option.splits)

lemma addFeature_item_size:
  assumes "addFeature_item env st feature draw ctx = (Some q, st')"
  shows "\<exists>sprite. s_size (q_style q) =
           clamp_size (fst (size_with_outline (outline_of env draw ctx) (feature_size draw ctx sprite)))"
proof -
  from addFeature_item_Some [OF assms] obtain sty0 st1 where
    ps: "point_style env st draw ctx = (Some sty0, st1)" and
    qs: "q_style q = computeLayout env sty0 feature draw ctx (c_tile ctx)"
    by blast
  from point_style_Some [OF ps] obtain color texture sprite where
    "sty0 = finish_point_style env draw ctx color texture sprite"
    by blast
  with qs show ?thesis
    by (auto simp: computeLayout_size finish_point_style_size)
qed

lemma explicit_size_no_outline:
  assumes "d_size draw = Some f" and "d_outline draw = None" and "f ctx = Size2 w h"
  shows "fst (size_with_outline (outline_of env draw ctx) (feature_size draw ctx sprite)) = (w, h)"
  using assms by (simp add: size_with_outline_def outline_of_def feature_size_def)

text \<open>
  Claim C1. Every work item that \<open>addFeature\<close> queues carries a style whose size is the
  requested size, with the outline width added where there is an outline, clamped to at
  most 256 in each dimension on its own. A requested size of 500 by 10 becomes 256 by 10,
  and a requested size of 10 by 10 stays as it is.
\<close>

theorem addFeature_size_clamped:
  assumes "t_generation (c_tile ctx) = st_generation st"
    and "addFeature_item env st feature draw ctx = (Some q, st')"
  shows "(\<exists>qs. st_queues (addFeature env st feature draw ctx) (t_id (c_tile ctx)) = Some (qs @ [q]))
    \<and> (\<exists>sprite. s_size (q_style q) =
          (min (fst (fst (size_with_outline (outline_of env draw ctx)
                            (feature_size draw ctx sprite)))) 256,
           min (snd (fst (size_with_outline (outline_of env draw ctx)
                            (feature_size draw ctx sprite)))) 256))
    \<and> fst (s_size (q_style q)) \<le> 256
    \<and> snd (s_size (q_style q)) \<le> 256
    \<and> (\<forall>f. d_size draw = Some f \<and> d_outline draw = None \<and> f ctx = Size2 500 10
           \<longrightarrow> s_size (q_style q) = (256, 10))
    \<and> (\<forall>f. d_size draw = Some f \<and> d_outline draw = None \<and> f ctx = Size2 10 10
           \<longrightarrow> s_size (q_style q) = (10, 10))"
proof -
  from addFeature_item_size [OF assms(2)] obtain sprite where
    sz: "s_size (q_style q) =
           clamp_size (fst (size_with_outline (outline_of env draw ctx) (feature_size draw ctx sprite)))"
    by blast
  have queued: "\<exists>qs. st_queues (addFeature env st feature draw ctx) (t_id (c_tile ctx)) = Some (qs @ [q])"
    using addFeature_queues_item [OF assms] .
  have eq: "\<exists>sprite. s_size (q_style q) =
          (min (fst (fst (size_with_outline (outline_of env draw ctx)
                            (feature_size draw ctx sprite)))) 256,
           min (snd (fst (size_with_outline (outline_of env draw ctx)
                            (feature_size draw ctx sprite)))) 256)"
    using sz by (auto simp: clamp_size_def)
  have le: "fst (s_size (q_style q)) \<le> 256 \<and> snd (s_size (q_style q)) \<le> 256"
    using sz by (simp add: clamp_size_def)
  have ex1: "\<forall>f. d_size draw = Some f \<and> d_outline draw = None \<and> f ctx = Size2 500 10
           \<longrightarrow> s_size (q_style q) = (256, 10)"
    using sz by (auto simp: explicit_size_no_outline clamp_size_def)
  have ex2: "\<forall>f. d_size draw = Some f \<and> d_outline draw = None \<and> f ctx = Size2 10 10
           \<longrightarrow> s_size (q_style q) = (10, 10)"
    using sz by (auto simp: explicit_size_no_outline clamp_size_def)
  from queued eq le ex1 ex2 show ?thesis by blast
qed

theorem addFeature_size_clamped_witness:
  "s_size (q_style (the (fst (addFeature_item example_env example_state example_feature
                                example_draw example_context)))) = (256, 10)
   \<and> fst (s_size (q_style (the (fst (addFeature_item example_env example_state example_feature
                                example_draw example_context))))) \<le> 256"
proof -
  have gen: "t_generation (c_tile example_context) = st_generation example_state"
    by (simp add: example_context_def example_tile_def example_state_def)
  from addFeature_size_clamped [OF gen example_item_pair]
  show ?thesis by (simp add: example_draw_def)
qed

text \<open>What \<open>addFeature\<close> does to the layout of an attached text.\<close>

lemma attach_text_priority:
  assumes "attach_text env st feature draw ctx tile sty = (Some tf, st')"
  shows "\<exists>td tf0 sb. d_text draw = Some td
           \<and> parseTextFeature env st feature td ctx tile = (TF_feature tf0, sb)
           \<and> l_priority (tf_layout tf) =
               text_priority td (l_priority (tf_layout tf0)) (l_priority sty)"
proof (cases "d_text draw")
  case None
  with assms show ?thesis by (simp add: attach_text_def)
next
  case (Some td)
  obtain r sb where p: "parseTextFeature env st feature td ctx tile = (r, sb)"
    by (cases "parseTextFeature env st feature td ctx tile")
  from assms Some p obtain tf0 where "r = TF_feature tf0"
    and "tf = tf0\<lparr>tf_layout := (tf_layout tf0)
            \<lparr> tl_parent := Some sty,
              l_priority := text_priority td (l_priority (tf_layout tf0)) (l_priority sty),
              l_move_into_tile := False \<rparr>\<rparr>"
    by (cases r) (auto simp: attach_text_def split: if_splits)
  with Some p show ?thesis by simp
qed

lemma text_priority_floor: "point_prio + 0.5 \<le> text_priority td text_prio point_prio"
  by (simp add: text_priority_def)

lemma attach_text_parent:
  assumes "attach_text env st feature draw ctx tile sty = (Some tf, st')"
  shows "tl_parent (tf_layout tf) = Some sty \<and> l_move_into_tile (tf_layout tf) = False"
  using assms
  by (auto simp: attach_text_def split: option.splits if_splits prod.splits tf_result.splits)

text \<open>
  Claim C10. For every work item that \<open>addFeature\<close> queues with a text feature, the text
  has the style of the point as its parent and its priority is at least the priority of
  the point plus 0.5: exactly that value when the draw group of the text declares no
  priority (the test of the source is truthiness, so a declared priority of zero counts
  as none), and the maximum of that value and the priority \<open>parseTextFeature\<close> gave the
  text when it declares one.
\<close>

theorem addFeature_text_priority:
  assumes "t_generation (c_tile ctx) = st_generation st"
    and "addFeature_item env st feature draw ctx = (Some q, st')"
    and "q_text_feature q = Some tf"
  shows "(\<exists>qs. st_queues (addFeature env st feature draw ctx) (t_id (c_tile ctx)) = Some (qs @ [q]))
    \<and> tl_parent (tf_layout tf) = Some (q_style q)
    \<and> l_priority (q_style q) + 0.5 \<le> l_priority (tf_layout tf)
    \<and> (\<exists>td tf0 sa sb.
          d_text draw = Some td
        \<and> parseTextFeature env sa feature td ctx (c_tile ctx) = (TF_feature tf0, sb)
        \<and> l_priority (tf_layout tf) =
            (if truthy_priority (td_priority td)
             then max (l_priority (tf_layout tf0)) (l_priority (q_style q) + 0.5)
             else l_priority (q_style q) + 0.5))"
proof -
  from addFeature_item_Some [OF assms(2)] assms(3) obtain st1 where
    at: "attach_text env st1 feature draw ctx (c_tile ctx) (q_style q) = (Some tf, st')"
    by auto
  from attach_text_priority [OF at] obtain td tf0 sb where
    td: "d_text draw = Some td" and
    p: "parseTextFeature env st1 feature td ctx (c_tile ctx) = (TF_feature tf0, sb)" and
    pr: "l_priority (tf_layout tf) =
           text_priority td (l_priority (tf_layout tf0)) (l_priority (q_style q))"
    by blast
  have floor: "l_priority (q_style q) + 0.5 \<le> l_priority (tf_layout tf)"
    using pr text_priority_floor [of "l_priority (q_style q)" td "l_priority (tf_layout tf0)"]
    by simp
  have queued: "\<exists>qs. st_queues (addFeature env st feature draw ctx) (t_id (c_tile ctx)) = Some (qs @ [q])"
    using addFeature_queues_item [OF assms(1,2)] .
  have parent: "tl_parent (tf_layout tf) = Some (q_style q)"
    using attach_text_parent [OF at] by simp
  have how: "\<exists>td tf0 sa sb.
          d_text draw = Some td
        \<and> parseTextFeature env sa feature td ctx (c_tile ctx) = (TF_feature tf0, sb)
        \<and> l_priority (tf_layout tf) =
            (if truthy_priority (td_priority td)
             then max (l_priority (tf_layout tf0)) (l_priority (q_style q) + 0.5)
             else l_priority (q_style q) + 0.5)"
    using td p pr unfolding text_priority_def by blast
  from queued parent floor how show ?thesis by blast
qed

theorem addFeature_text_priority_witness:
  "l_priority (q_style (the (fst (addFeature_item example_env example_state example_feature
                                    example_draw example_context)))) = 5
   \<and> l_priority (tf_layout (the (q_text_feature (the (fst (addFeature_item example_env
          example_state example_feature example_draw example_context)))))) = 5.5
   \<and> l_priority (q_style (the (fst (addFeature_item example_env example_state example_feature
                                    example_draw example_context)))) + 0.5
       \<le> l_priority (tf_layout (the (q_text_feature (the (fst (addFeature_item example_env
          example_state example_feature example_draw example_context))))))"
proof -
  have gen: "t_generation (c_tile example_context) = st_generation example_state"
    by (simp add: example_context_def example_tile_def example_state_def)
  have tf: "q_text_feature (the (fst (addFeature_item example_env example_state example_feature
              example_draw example_context))) =
            Some (the (q_text_feature (the (fst (addFeature_item example_env example_state
              example_feature example_draw example_context)))))"
    by (simp add: example_item)
  have five: "l_priority example_style = 5"
    by (simp add: example_style_def computeLayout_def Let_def example_draw_def)
  from addFeature_text_priority [OF gen example_item_pair tf] five
  show ?thesis by (simp add: example_item)
qed

section \<open>Properties of endData\<close>

text \<open>
  Claim C8. For a canceled tile \<open>endData\<close> returns the resolved promise
  \<open>Promise.resolve()\<close>, which is not an error and carries no collision pass: no label is
  built and nothing is handed to the collision manager or to the mesh builders. The only
  effect is the trace message; the queues, the tile data and the collision registrations
  stay as they were.
\<close>

theorem endData_canceled:
  "t_canceled tile \<Longrightarrow>
   endData le st tile =
     (Inr Resolved_undefined,
      st\<lparr>st_logs := st_logs st @ [Trace_tile_canceled (st_name st) (t_key tile)]\<rparr>)
   \<and> st_queues (snd (endData le st tile)) = st_queues st
   \<and> st_collision (snd (endData le st tile)) = st_collision st
   \<and> st_tile_data (snd (endData le st tile)) = st_tile_data st
   \<and> st_rest (snd (endData le st tile)) = st_rest st"
  by (simp add: endData_def log_def)

theorem endData_canceled_witness:
  "t_canceled (example_tile\<lparr>t_canceled := True\<rparr>)
   \<and> fst (endData example_label_env example_state (example_tile\<lparr>t_canceled := True\<rparr>))
       = Inr Resolved_undefined
   \<and> st_queues (snd (endData example_label_env example_state (example_tile\<lparr>t_canceled := True\<rparr>)))
       = st_queues example_state"
  using endData_canceled [of "example_tile\<lparr>t_canceled := True\<rparr>" example_label_env example_state]
  by simp

text \<open>
  The linkage holds of the empty arrays and is kept by every round of the two loops: a
  point object without a link, and a point object with the text object made for it.
\<close>

lemma links_ok_empty: "links_ok [] []"
  by (simp add: links_ok_def)

lemma links_ok_snoc_point:
  assumes "links_ok ps ts" and "po_linked p = None"
  shows "links_ok (ps @ [p]) ts"
  using assms unfolding links_ok_def
  by (auto simp: nth_append less_Suc_eq)

lemma links_ok_snoc_text:
  assumes ok: "links_ok ps ts"
    and td: "d_text (po_draw p) = Some td"
    and bwd: "po_linked p = (if truthy (td_optional td) then None else Some (length ts))"
    and fwd: "to_linked t = length ps"
    and lab: "po_label p = to_point_label t"
    and fea: "po_feature p = to_feature t"
  shows "links_ok (ps @ [p]) (ts @ [t])"
proof -
  from ok have old: "\<And>j. j < length ts \<Longrightarrow> to_linked (ts ! j) < length ps"
    by (simp add: links_ok_def)
  have one: "\<forall>j < length (ts @ [t]).
        to_linked ((ts @ [t]) ! j) < length (ps @ [p])
      \<and> po_label ((ps @ [p]) ! to_linked ((ts @ [t]) ! j)) = to_point_label ((ts @ [t]) ! j)
      \<and> po_feature ((ps @ [p]) ! to_linked ((ts @ [t]) ! j)) = to_feature ((ts @ [t]) ! j)
      \<and> (\<exists>td. d_text (po_draw ((ps @ [p]) ! to_linked ((ts @ [t]) ! j))) = Some td
            \<and> po_linked ((ps @ [p]) ! to_linked ((ts @ [t]) ! j)) =
                (if truthy (td_optional td) then None else Some j))"
  proof (intro allI impI)
    fix j assume "j < length (ts @ [t])"
    then consider "j < length ts" | "j = length ts" by (auto simp: less_Suc_eq)
    then show "to_linked ((ts @ [t]) ! j) < length (ps @ [p])
      \<and> po_label ((ps @ [p]) ! to_linked ((ts @ [t]) ! j)) = to_point_label ((ts @ [t]) ! j)
      \<and> po_feature ((ps @ [p]) ! to_linked ((ts @ [t]) ! j)) = to_feature ((ts @ [t]) ! j)
      \<and> (\<exists>td. d_text (po_draw ((ps @ [p]) ! to_linked ((ts @ [t]) ! j))) = Some td
            \<and> po_linked ((ps @ [p]) ! to_linked ((ts @ [t]) ! j)) =
                (if truthy (td_optional td) then None else Some j))"
    proof cases
      case 1
      from old [OF 1] have "to_linked (ts ! j) < Suc (length ps)" by simp
      with 1 ok old [OF 1] show ?thesis
        unfolding links_ok_def by (simp add: nth_append)
    next
      case 2
      with td bwd fwd lab fea show ?thesis by (simp add: nth_append)
    qed
  qed
  have two: "\<forall>j < length (ts @ [t]). \<forall>k < length (ts @ [t]).
        to_linked ((ts @ [t]) ! j) = to_linked ((ts @ [t]) ! k) \<longrightarrow> j = k"
  proof (intro allI impI)
    fix j k assume j: "j < length (ts @ [t])" and k: "k < length (ts @ [t])"
      and e: "to_linked ((ts @ [t]) ! j) = to_linked ((ts @ [t]) ! k)"
    show "j = k"
    proof (cases "j < length ts")
      case jt: True
      show ?thesis
      proof (cases "k < length ts")
        case True
        with jt e ok show ?thesis unfolding links_ok_def by (simp add: nth_append)
      next
        case False
        with k have "k = length ts" by simp
        with jt e fwd old [OF jt] show ?thesis by (simp add: nth_append)
      qed
    next
      case jf: False
      with j have jl: "j = length ts" by simp
      show ?thesis
      proof (cases "k < length ts")
        case True
        with jl e fwd old [OF True] show ?thesis by (simp add: nth_append)
      next
        case False
        with k jl show ?thesis by simp
      qed
    qed
  qed
  have three: "\<forall>i < length (ps @ [p]). \<forall>j. po_linked ((ps @ [p]) ! i) = Some j \<longrightarrow>
          j < length (ts @ [t]) \<and> to_linked ((ts @ [t]) ! j) = i"
  proof (intro allI impI)
    fix i j assume i: "i < length (ps @ [p])" and l: "po_linked ((ps @ [p]) ! i) = Some j"
    show "j < length (ts @ [t]) \<and> to_linked ((ts @ [t]) ! j) = i"
    proof (cases "i < length ps")
      case True
      with l ok show ?thesis unfolding links_ok_def by (auto simp: nth_append)
    next
      case False
      with i have "i = length ps" by simp
      with l bwd fwd show ?thesis by (auto simp: nth_append split: if_splits)
    qed
  qed
  from one two three show ?thesis unfolding links_ok_def by blast
qed

lemma link_labels_ok:
  assumes "q_text_feature q \<noteq> None \<longrightarrow> d_text (q_draw q) \<noteq> None" and "links_ok ps ts"
  shows "\<exists>ps' ts'. link_labels q labels (ps, ts) = Inr (ps', ts')
    \<and> links_ok ps' ts'
    \<and> length ps' = length ps + length labels
    \<and> length ts' = length ts + (if q_text_feature q = None then 0 else length labels)"
  using assms(2)
proof (induction labels arbitrary: ps ts)
  case Nil
  then show ?case by simp
next
  case (Cons label labels)
  let ?p = "\<lparr> po_feature = q_feature q, po_draw = q_draw q, po_context = q_context q,
              po_style = q_style q, po_label = label, po_linked = None \<rparr>"
  show ?case
  proof (cases "q_text_feature q")
    case None
    have "links_ok (ps @ [?p]) ts"
      using Cons.prems by (rule links_ok_snoc_point) simp
    from Cons.IH [OF this] None show ?thesis by (simp add: Let_def)
  next
    case (Some tf)
    with assms(1) obtain td where td: "d_text (q_draw q) = Some td" by auto
    let ?t = "\<lparr> to_feature = q_feature q, to_draw = tf_draw tf,
                to_context = q_context q, to_text = tf_text tf,
                to_text_settings_key = tf_text_settings_key tf,
                to_layout = tf_layout tf, to_point_label = label,
                to_linked = length ps \<rparr>"
    let ?p' = "if truthy (td_optional td) then ?p else ?p\<lparr>po_linked := Some (length ts)\<rparr>"
    have "links_ok (ps @ [?p']) (ts @ [?t])"
      using Cons.prems by (rule links_ok_snoc_text [where td = td]) (simp_all add: td)
    from Cons.IH [OF this] Some td show ?thesis
      by (cases "truthy (td_optional td)") (simp_all add: Let_def)
  qed
qed

lemma build_objs_ok:
  assumes "\<forall>q \<in> set items. q_text_feature q \<noteq> None \<longrightarrow> d_text (q_draw q) \<noteq> None"
    and "links_ok ps ts"
  shows "\<exists>ps' ts'. build_objs le items (ps, ts) = Inr (ps', ts')
    \<and> links_ok ps' ts'
    \<and> length ps' = length ps
        + (\<Sum>q\<leftarrow>items. length (buildLabels le (s_size (q_style q)) (f_geometry (q_feature q))
                                  (q_style q)))
    \<and> length ts' = length ts
        + (\<Sum>q\<leftarrow>items. if q_text_feature q = None then 0
                        else length (buildLabels le (s_size (q_style q)) (f_geometry (q_feature q))
                                       (q_style q)))"
  using assms
proof (induction items arbitrary: ps ts)
  case Nil
  then show ?case by simp
next
  case (Cons q items)
  from Cons.prems have wf: "q_text_feature q \<noteq> None \<longrightarrow> d_text (q_draw q) \<noteq> None"
    and rest: "\<forall>q \<in> set items. q_text_feature q \<noteq> None \<longrightarrow> d_text (q_draw q) \<noteq> None"
    by simp_all
  let ?labels = "buildLabels le (s_size (q_style q)) (f_geometry (q_feature q)) (q_style q)"
  from link_labels_ok [OF wf Cons.prems(2), of ?labels] obtain ps1 ts1 where
    l: "link_labels q ?labels (ps, ts) = Inr (ps1, ts1)" and ok1: "links_ok ps1 ts1"
    and lp: "length ps1 = length ps + length ?labels"
    and lt: "length ts1 = length ts + (if q_text_feature q = None then 0 else length ?labels)"
    by blast
  from Cons.IH [OF rest ok1] obtain ps' ts' where
    b: "build_objs le items (ps1, ts1) = Inr (ps', ts')" and ok: "links_ok ps' ts'"
    and lp': "length ps' = length ps1
        + (\<Sum>q\<leftarrow>items. length (buildLabels le (s_size (q_style q)) (f_geometry (q_feature q))
                                  (q_style q)))"
    and lt': "length ts' = length ts1
        + (\<Sum>q\<leftarrow>items. if q_text_feature q = None then 0
                        else length (buildLabels le (s_size (q_style q)) (f_geometry (q_feature q))
                                       (q_style q)))"
    by blast
  show ?case
    apply (rule exI [of _ ps'], rule exI [of _ ts'])
    apply (simp add: l b ok lp' lt' lp lt)
    done
qed

text \<open>Every point object carries the draw group, the feature and the style of a queued item.\<close>

lemma link_labels_from:
  assumes "link_labels q labels (ps, ts) = Inr (ps', ts')"
  shows "\<forall>p \<in> set ps'. p \<in> set ps \<or>
           (po_draw p = q_draw q \<and> po_feature p = q_feature q \<and> po_style p = q_style q
            \<and> po_context p = q_context q)"
  using assms
proof (induction labels arbitrary: ps ts)
  case Nil
  then show ?case by simp
next
  case (Cons label labels)
  let ?p = "\<lparr> po_feature = q_feature q, po_draw = q_draw q, po_context = q_context q,
              po_style = q_style q, po_label = label, po_linked = None \<rparr>"
  from Cons.prems obtain p1 ts1 where
    rec: "link_labels q labels (ps @ [p1], ts1) = Inr (ps', ts')"
    and p1: "po_draw p1 = q_draw q \<and> po_feature p1 = q_feature q \<and> po_style p1 = q_style q
            \<and> po_context p1 = q_context q"
    by (auto simp: Let_def split: option.splits if_splits)
  from Cons.IH [OF rec] p1 show ?case by auto
qed

lemma build_objs_from:
  assumes "build_objs le items (ps, ts) = Inr (ps', ts')"
  shows "\<forall>p \<in> set ps'. p \<in> set ps \<or>
           (\<exists>q \<in> set items. po_draw p = q_draw q \<and> po_feature p = q_feature q
              \<and> po_style p = q_style q \<and> po_context p = q_context q)"
  using assms
proof (induction items arbitrary: ps ts)
  case Nil
  then show ?case by simp
next
  case (Cons q items)
  from Cons.prems obtain ps1 ts1 where
    l: "link_labels q (buildLabels le (s_size (q_style q)) (f_geometry (q_feature q)) (q_style q))
          (ps, ts) = Inr (ps1, ts1)"
    and b: "build_objs le items (ps1, ts1) = Inr (ps', ts')"
    by (auto split: sum.splits)
  from Cons.IH [OF b] link_labels_from [OF l] show ?case by fastforce
qed

text \<open>
  \<open>_preprocess\<close> leaves \<open>optional\<close> a boolean, and a work item that \<open>addFeature\<close>
  builds with a text feature has a draw group with a text: the queues that \<open>endData\<close>
  finds satisfy the third hypothesis of the theorem below.
\<close>

lemma preprocess_text_optional:
  assumes "d_text (preprocess_text P a d) = Some td"
  shows "\<exists>td0. P (d_text d) = Some td0
           \<and> td_optional td = (case td_optional td0 of JBool b \<Rightarrow> JBool b | _ \<Rightarrow> JBool False)"
  using assms by (auto simp: preprocess_text_def split: option.splits)

lemma addFeature_item_text_draw:
  assumes "addFeature_item env st feature draw ctx = (Some q, st')"
  shows "q_text_feature q \<noteq> None \<longrightarrow> d_text (q_draw q) \<noteq> None"
proof
  assume "q_text_feature q \<noteq> None"
  then obtain tf where tf: "q_text_feature q = Some tf" by auto
  from addFeature_item_Some [OF assms] tf obtain st1 where
    "attach_text env st1 feature draw ctx (c_tile ctx) (q_style q) = (Some tf, st')"
    and "q_draw q = draw"
    by auto
  with attach_text_priority [of env st1 feature draw ctx "c_tile ctx" "q_style q" tf st']
  show "d_text (q_draw q) \<noteq> None" by auto
qed

text \<open>
  Claim C2. On a tile that is not canceled and has a queue whose items with a text
  feature have a text in their draw group, \<open>endData\<close> starts the two collision passes
  on point objects and text objects such that: every text object is linked to a point
  object of its own feature and label, a different one for each text object; that point
  object is linked back to the text object if and only if the text of its draw group is
  not optional, and has no link otherwise, so exactly one of the two modes holds for the
  pair; a point object is linked to no other text object; every point object comes from a
  queued item, one for each label of the item, and there is one text object for each
  label of each item with a text feature. After \<open>_preprocess\<close> the mark \<open>optional\<close> is
  a boolean.
\<close>

theorem endData_links:
  assumes "\<not> t_canceled tile"
    and "st_queues st (t_id tile) = Some items"
    and "\<forall>q \<in> set items. q_text_feature q \<noteq> None \<longrightarrow> d_text (q_draw q) \<noteq> None"
  shows "\<exists>cp. fst (endData le st tile) = Inr (Pending cp)
    \<and> (\<forall>j < length (cp_text_objs cp).
          to_linked (cp_text_objs cp ! j) < length (cp_point_objs cp)
        \<and> po_label (cp_point_objs cp ! to_linked (cp_text_objs cp ! j))
            = to_point_label (cp_text_objs cp ! j)
        \<and> po_feature (cp_point_objs cp ! to_linked (cp_text_objs cp ! j))
            = to_feature (cp_text_objs cp ! j)
        \<and> (\<exists>td. d_text (po_draw (cp_point_objs cp ! to_linked (cp_text_objs cp ! j))) = Some td
              \<and> po_linked (cp_point_objs cp ! to_linked (cp_text_objs cp ! j)) =
                  (if truthy (td_optional td) then None else Some j)))
    \<and> (\<forall>j < length (cp_text_objs cp). \<forall>k < length (cp_text_objs cp).
          to_linked (cp_text_objs cp ! j) = to_linked (cp_text_objs cp ! k) \<longrightarrow> j = k)
    \<and> (\<forall>i < length (cp_point_objs cp). \<forall>j. po_linked (cp_point_objs cp ! i) = Some j \<longrightarrow>
          j < length (cp_text_objs cp) \<and> to_linked (cp_text_objs cp ! j) = i)
    \<and> (\<forall>p \<in> set (cp_point_objs cp). \<exists>q \<in> set items.
          po_draw p = q_draw q \<and> po_feature p = q_feature q \<and> po_style p = q_style q
        \<and> po_context p = q_context q)
    \<and> length (cp_point_objs cp) =
         (\<Sum>q\<leftarrow>items. length (buildLabels le (s_size (q_style q)) (f_geometry (q_feature q))
                                   (q_style q)))
    \<and> length (cp_text_objs cp) =
         (\<Sum>q\<leftarrow>items. if q_text_feature q = None then 0
                         else length (buildLabels le (s_size (q_style q)) (f_geometry (q_feature q))
                                        (q_style q)))
    \<and> (\<forall>P a d td. d_text (preprocess_text P a d) = Some td \<longrightarrow> (\<exists>b. td_optional td = JBool b))"
proof -
  from build_objs_ok [OF assms(3) links_ok_empty, of le] obtain ps ts where
    b: "build_objs le items ([], []) = Inr (ps, ts)" and ok: "links_ok ps ts"
    and lp: "length ps =
         (\<Sum>q\<leftarrow>items. length (buildLabels le (s_size (q_style q)) (f_geometry (q_feature q))
                                   (q_style q)))"
    and lt: "length ts =
         (\<Sum>q\<leftarrow>items. if q_text_feature q = None then 0
                         else length (buildLabels le (s_size (q_style q)) (f_geometry (q_feature q))
                                        (q_style q)))"
    by auto
  let ?st1 = "st\<lparr>st_queues := (st_queues st)(t_id tile := None)\<rparr>"
  let ?cp = "\<lparr> cp_tile_id = t_id tile, cp_points_group = collision_group_points ?st1,
               cp_point_objs = ps, cp_text_group = collision_group_text ?st1,
               cp_text_objs = ts \<rparr>"
  have r: "fst (endData le st tile) = Inr (Pending ?cp)"
    using assms(1,2) b by (simp add: endData_def Let_def)
  have from_items: "\<forall>p \<in> set ps. \<exists>q \<in> set items.
          po_draw p = q_draw q \<and> po_feature p = q_feature q \<and> po_style p = q_style q
        \<and> po_context p = q_context q"
    using build_objs_from [OF b] by simp
  have pre: "\<forall>P a d td. d_text (preprocess_text P a d) = Some td \<longrightarrow> (\<exists>b. td_optional td = JBool b)"
  proof (intro allI impI)
    fix P a d td assume "d_text (preprocess_text P a d) = Some td"
    from preprocess_text_optional [OF this] obtain td0 where
      "P (d_text d) = Some td0" and
      "td_optional td = (case td_optional td0 of JBool b \<Rightarrow> JBool b | _ \<Rightarrow> JBool False)"
      by (elim exE conjE)
    then show "\<exists>b. td_optional td = JBool b"
      by (cases "td_optional td0") auto
  qed
  show ?thesis
    apply (rule exI [of _ ?cp])
    apply (intro conjI)
            apply (rule r)
    using ok lp lt from_items pre
    unfolding links_ok_def
           apply simp_all
    done
qed

theorem endData_links_witness:
  "\<exists>cp. fst (endData example_label_env
             (example_state\<lparr>st_queues := [''t1'' \<mapsto>
                [the (fst (addFeature_item example_env example_state example_feature example_draw
                             example_context))]]\<rparr>)
             example_tile) = Inr (Pending cp)
     \<and> length (cp_point_objs cp) = 1
     \<and> length (cp_text_objs cp) = 1
     \<and> to_linked (cp_text_objs cp ! 0) = 0
     \<and> po_linked (cp_point_objs cp ! 0) = Some 0"
proof -
  let ?q = "the (fst (addFeature_item example_env example_state example_feature example_draw
                       example_context))"
  let ?st = "example_state\<lparr>st_queues := [''t1'' \<mapsto> [?q]]\<rparr>"
  have h1: "\<not> t_canceled example_tile" by (simp add: example_tile_def)
  have h2: "st_queues ?st (t_id example_tile) = Some [?q]" by (simp add: example_tile_def)
  have qd: "q_draw ?q = example_draw" and qf: "q_feature ?q = example_feature"
    and qt: "q_text_feature ?q \<noteq> None"
    by (simp_all add: example_item)
  have dt: "d_text example_draw = Some example_text_draw" by (simp add: example_draw_def)
  have h3: "\<forall>q \<in> set [?q]. q_text_feature q \<noteq> None \<longrightarrow> d_text (q_draw q) \<noteq> None"
    by (simp add: qd dt)
  have one: "length (buildLabels example_label_env (s_size (q_style ?q)) (f_geometry (q_feature ?q))
                      (q_style ?q)) = 1"
    unfolding qf by (simp add: example_feature_def buildLabels_def)
  from endData_links [OF h1 h2 h3, of example_label_env] obtain cp where
    r: "fst (endData example_label_env ?st example_tile) = Inr (Pending cp)"
    and l1: "\<forall>j < length (cp_text_objs cp).
          to_linked (cp_text_objs cp ! j) < length (cp_point_objs cp)
        \<and> po_label (cp_point_objs cp ! to_linked (cp_text_objs cp ! j))
            = to_point_label (cp_text_objs cp ! j)
        \<and> po_feature (cp_point_objs cp ! to_linked (cp_text_objs cp ! j))
            = to_feature (cp_text_objs cp ! j)
        \<and> (\<exists>td. d_text (po_draw (cp_point_objs cp ! to_linked (cp_text_objs cp ! j))) = Some td
              \<and> po_linked (cp_point_objs cp ! to_linked (cp_text_objs cp ! j)) =
                  (if truthy (td_optional td) then None else Some j))"
    and fr: "\<forall>p \<in> set (cp_point_objs cp). \<exists>q \<in> set [?q].
          po_draw p = q_draw q \<and> po_feature p = q_feature q \<and> po_style p = q_style q
        \<and> po_context p = q_context q"
    and lp: "length (cp_point_objs cp) =
         (\<Sum>q\<leftarrow>[?q]. length (buildLabels example_label_env (s_size (q_style q))
                                  (f_geometry (q_feature q)) (q_style q)))"
    and lt: "length (cp_text_objs cp) =
         (\<Sum>q\<leftarrow>[?q]. if q_text_feature q = None then 0
                        else length (buildLabels example_label_env (s_size (q_style q))
                                       (f_geometry (q_feature q)) (q_style q)))"
    by (elim exE conjE)
  from lp one have np: "length (cp_point_objs cp) = 1" by simp
  from lt one qt have nt: "length (cp_text_objs cp) = 1" by simp
  from l1 nt np have t0: "to_linked (cp_text_objs cp ! 0) = 0" by auto
  from np have "cp_point_objs cp ! 0 \<in> set (cp_point_objs cp)" by simp
  with fr qd have pd: "po_draw (cp_point_objs cp ! 0) = example_draw" by auto
  from l1 nt t0 obtain td where
    "d_text (po_draw (cp_point_objs cp ! 0)) = Some td"
    and pl: "po_linked (cp_point_objs cp ! 0) = (if truthy (td_optional td) then None else Some 0)"
    by auto
  with pd dt have "td = example_text_draw" by simp
  with pl have p0: "po_linked (cp_point_objs cp ! 0) = Some 0"
    by (simp add: example_text_draw_def)
  from r np nt t0 p0 show ?thesis by blast
qed

section \<open>Properties of buildArticulatedLabel\<close>

text \<open>
  The two passes are recursive on the segment index; their equations are unfolded by
  hand, one round at a time.
\<close>

declare stroke_pass.simps [simp del] fill_pass.simps [simp del]

lemma segment_quad_eq:
  "segment_quad me label vt tile texcoord i (sty, w, gc) =
     (sty\<lparr>cs_label_texture := nth_opt (cs_label_textures sty) i\<rparr>,
      w\<lparr>w_uniforms := (w_uniforms w)
           (qc_vertex_data (segment_call me label vt tile sty texcoord i) :=
              Some \<lparr> u_texture = nth_opt (cs_label_textures sty) i,
                     u_point_type = TANGRAM_POINT_TYPE_LABEL,
                     u_apply_color_blocks = False \<rparr>),
         w_quads := w_quads w @ [segment_call me label vt tile sty texcoord i]\<rparr>,
      gc + geom_of me (segment_call me label vt tile sty texcoord i))"
  by (simp add: segment_quad_def segment_call_def buildQuad_def buildQuadsForPoints_def Let_def)

lemma segment_call_label_texture:
  "segment_call me label vt tile (sty\<lparr>cs_label_texture := t\<rparr>) texcoord i =
     segment_call me label vt tile sty texcoord i"
  by (simp add: segment_call_def)

lemma stroke_pass_quads:
  "n = cl_num_segments label - i \<Longrightarrow>
   \<exists>t u. stroke_pass me label vt tile i (sty, w, gc) =
     (sty\<lparr>cs_label_texture := t\<rparr>,
      w\<lparr>w_uniforms := u,
         w_quads := w_quads w @
           map (\<lambda>k. segment_call me label vt tile sty (nth_opt (cs_texcoords_stroke sty) k) k)
             [i..<cl_num_segments label]\<rparr>,
      gc + sum_list (map (\<lambda>k. geom_of me
             (segment_call me label vt tile sty (nth_opt (cs_texcoords_stroke sty) k) k))
             [i..<cl_num_segments label]))"
proof (induction n arbitrary: i sty w gc)
  case 0
  then have nlt: "\<not> i < cl_num_segments label" by simp
  have e: "stroke_pass me label vt tile i (sty, w, gc) = (sty, w, gc)"
    by (subst stroke_pass.simps) (simp add: nlt)
  have upt: "[i..<cl_num_segments label] = []" using nlt by simp
  show ?case
    apply (rule exI [of _ "cs_label_texture sty"], rule exI [of _ "w_uniforms w"])
    apply (simp only: e upt)
    apply simp
    done
next
  case (Suc n)
  then have lt: "i < cl_num_segments label" and n: "n = cl_num_segments label - Suc i"
    by simp_all
  let ?c = "segment_call me label vt tile sty (nth_opt (cs_texcoords_stroke sty) i) i"
  let ?sty1 = "sty\<lparr>cs_label_texture := nth_opt (cs_label_textures sty) i\<rparr>"
  let ?w1 = "w\<lparr>w_uniforms := (w_uniforms w)
           (qc_vertex_data ?c :=
              Some \<lparr> u_texture = nth_opt (cs_label_textures sty) i,
                     u_point_type = TANGRAM_POINT_TYPE_LABEL,
                     u_apply_color_blocks = False \<rparr>),
         w_quads := w_quads w @ [?c]\<rparr>"
  have step: "stroke_pass me label vt tile i (sty, w, gc) =
      stroke_pass me label vt tile (Suc i) (?sty1, ?w1, gc + geom_of me ?c)"
    using lt by (subst stroke_pass.simps) (simp add: segment_quad_eq)
  from Suc.IH [OF n, of ?sty1 ?w1 "gc + geom_of me ?c"] obtain t u where
    rec: "stroke_pass me label vt tile (Suc i) (?sty1, ?w1, gc + geom_of me ?c) =
      (?sty1\<lparr>cs_label_texture := t\<rparr>,
       ?w1\<lparr>w_uniforms := u,
         w_quads := w_quads ?w1 @
           map (\<lambda>k. segment_call me label vt tile ?sty1 (nth_opt (cs_texcoords_stroke ?sty1) k) k)
             [Suc i..<cl_num_segments label]\<rparr>,
       gc + geom_of me ?c + sum_list (map (\<lambda>k. geom_of me
             (segment_call me label vt tile ?sty1 (nth_opt (cs_texcoords_stroke ?sty1) k) k))
             [Suc i..<cl_num_segments label]))"
    by blast
  have upt: "[i..<cl_num_segments label] = i # [Suc i..<cl_num_segments label]"
    using lt by (simp add: upt_conv_Cons)
  show ?case
    apply (rule exI [of _ t], rule exI [of _ u])
    apply (simp add: step rec upt segment_call_label_texture)
    done
qed

lemma fill_pass_quads:
  "n = cl_num_segments label - i \<Longrightarrow> cl_num_segments label \<le> length (cs_texcoords sty) \<Longrightarrow>
   \<exists>t u. fill_pass me label vt tile i (sty, w, gc) =
     Inr (sty\<lparr>cs_label_texture := t\<rparr>,
      w\<lparr>w_uniforms := u,
         w_quads := w_quads w @
           map (\<lambda>k. segment_call me label vt tile sty (Some (cs_texcoords sty ! k)) k)
             [i..<cl_num_segments label]\<rparr>,
      gc + sum_list (map (\<lambda>k. geom_of me
             (segment_call me label vt tile sty (Some (cs_texcoords sty ! k)) k))
             [i..<cl_num_segments label]))"
proof (induction n arbitrary: i sty w gc)
  case 0
  then have nlt: "\<not> i < cl_num_segments label" by simp
  have e: "fill_pass me label vt tile i (sty, w, gc) = Inr (sty, w, gc)"
    by (subst fill_pass.simps) (simp add: nlt)
  have upt: "[i..<cl_num_segments label] = []" using nlt by simp
  show ?case
    apply (rule exI [of _ "cs_label_texture sty"], rule exI [of _ "w_uniforms w"])
    apply (simp only: e upt)
    apply simp
    done
next
  case (Suc n)
  then have lt: "i < cl_num_segments label" and n: "n = cl_num_segments label - Suc i"
    by simp_all
  with Suc.prems have tc: "nth_opt (cs_texcoords sty) i = Some (cs_texcoords sty ! i)"
    by (simp add: nth_opt_def)
  let ?c = "segment_call me label vt tile sty (Some (cs_texcoords sty ! i)) i"
  let ?sty1 = "sty\<lparr>cs_label_texture := nth_opt (cs_label_textures sty) i\<rparr>"
  let ?w1 = "w\<lparr>w_uniforms := (w_uniforms w)
           (qc_vertex_data ?c :=
              Some \<lparr> u_texture = nth_opt (cs_label_textures sty) i,
                     u_point_type = TANGRAM_POINT_TYPE_LABEL,
                     u_apply_color_blocks = False \<rparr>),
         w_quads := w_quads w @ [?c]\<rparr>"
  have step: "fill_pass me label vt tile i (sty, w, gc) =
      fill_pass me label vt tile (Suc i) (?sty1, ?w1, gc + geom_of me ?c)"
    using lt tc by (subst fill_pass.simps) (simp add: segment_quad_eq)
  have len: "cl_num_segments label \<le> length (cs_texcoords ?sty1)"
    using Suc.prems by simp
  from Suc.IH [OF n len, of ?w1 "gc + geom_of me ?c"] obtain t u where
    rec: "fill_pass me label vt tile (Suc i) (?sty1, ?w1, gc + geom_of me ?c) =
      Inr (?sty1\<lparr>cs_label_texture := t\<rparr>,
       ?w1\<lparr>w_uniforms := u,
         w_quads := w_quads ?w1 @
           map (\<lambda>k. segment_call me label vt tile ?sty1 (Some (cs_texcoords ?sty1 ! k)) k)
             [Suc i..<cl_num_segments label]\<rparr>,
       gc + geom_of me ?c + sum_list (map (\<lambda>k. geom_of me
             (segment_call me label vt tile ?sty1 (Some (cs_texcoords ?sty1 ! k)) k))
             [Suc i..<cl_num_segments label]))"
    by blast
  have upt: "[i..<cl_num_segments label] = i # [Suc i..<cl_num_segments label]"
    using lt by (simp add: upt_conv_Cons)
  show ?case
    apply (rule exI [of _ t], rule exI [of _ u])
    apply (simp add: step rec upt segment_call_label_texture)
    done
qed

lemma fill_pass_throws:
  "i < cl_num_segments label \<Longrightarrow> length (cs_texcoords sty) \<le> i \<Longrightarrow>
   fill_pass me label vt tile i (sty, w, gc) = Inl TypeError"
  by (subst fill_pass.simps) (simp add: nth_opt_def)

lemma buildArticulatedLabel_calls:
  assumes "cl_num_segments label \<le> length (cs_texcoords sty)"
  shows "\<exists>sty' w'. buildArticulatedLabel me vt label sty tile w =
      Inr (sum_list (map (geom_of me)
             (map (\<lambda>k. segment_call me label vt tile sty (nth_opt (cs_texcoords_stroke sty) k) k)
                [0..<cl_num_segments label]
              @ map (\<lambda>k. segment_call me label vt tile sty (Some (cs_texcoords sty ! k)) k)
                [0..<cl_num_segments label])), sty', w')
    \<and> w_quads w' = w_quads w
        @ map (\<lambda>k. segment_call me label vt tile sty (nth_opt (cs_texcoords_stroke sty) k) k)
            [0..<cl_num_segments label]
        @ map (\<lambda>k. segment_call me label vt tile sty (Some (cs_texcoords sty ! k)) k)
            [0..<cl_num_segments label]"
proof -
  let ?n = "cl_num_segments label"
  let ?S = "map (\<lambda>k. segment_call me label vt tile sty (nth_opt (cs_texcoords_stroke sty) k) k) [0..<?n]"
  let ?F = "map (\<lambda>k. segment_call me label vt tile sty (Some (cs_texcoords sty ! k)) k) [0..<?n]"
  from stroke_pass_quads [of ?n label 0 me vt tile sty w 0] obtain t u where
    s: "stroke_pass me label vt tile 0 (sty, w, 0) =
      (sty\<lparr>cs_label_texture := t\<rparr>, w\<lparr>w_uniforms := u, w_quads := w_quads w @ ?S\<rparr>,
       0 + sum_list (map (\<lambda>k. geom_of me
             (segment_call me label vt tile sty (nth_opt (cs_texcoords_stroke sty) k) k)) [0..<?n]))"
    by auto
  let ?sty1 = "sty\<lparr>cs_label_texture := t\<rparr>"
  let ?w1 = "w\<lparr>w_uniforms := u, w_quads := w_quads w @ ?S\<rparr>"
  let ?g1 = "sum_list (map (\<lambda>k. geom_of me
             (segment_call me label vt tile sty (nth_opt (cs_texcoords_stroke sty) k) k)) [0..<?n])"
  have s': "stroke_pass me label vt tile 0 (sty, w, 0) = (?sty1, ?w1, ?g1)"
    using s by simp
  have len: "?n \<le> length (cs_texcoords ?sty1)" using assms by simp
  from fill_pass_quads [of ?n label 0 ?sty1 me vt tile ?w1 ?g1, OF _ len] obtain t' u' where
    f: "fill_pass me label vt tile 0 (?sty1, ?w1, ?g1) =
      Inr (?sty1\<lparr>cs_label_texture := t'\<rparr>,
        ?w1\<lparr>w_uniforms := u',
          w_quads := w_quads ?w1 @
            map (\<lambda>k. segment_call me label vt tile ?sty1 (Some (cs_texcoords ?sty1 ! k)) k) [0..<?n]\<rparr>,
        ?g1 + sum_list (map (\<lambda>k. geom_of me
             (segment_call me label vt tile ?sty1 (Some (cs_texcoords ?sty1 ! k)) k)) [0..<?n]))"
    by auto
  show ?thesis
    unfolding buildArticulatedLabel_def s' f
    by (simp add: segment_call_label_texture comp_def)
qed

text \<open>
  Claim C3. For a curved label whose style has fill texture coordinates for each of its
  \<open>num_segments\<close> segments, \<open>buildArticulatedLabel\<close> returns, having made exactly
  \<open>2 * num_segments\<close> calls of \<open>buildQuadsForPoints\<close> through \<open>buildQuad\<close>: first the
  stroke pass, one quad for each segment \<open>i\<close> in order with the stroke texture coordinates
  of the segment, then the fill pass, one quad for each segment \<open>i\<close> in order with its
  fill texture coordinates. In both passes the quad of segment \<open>i\<close> is built with
  \<open>angles[i]\<close>, \<open>pre_angles[i]\<close> and \<open>offsets[i]\<close> of the label, and the result is the
  sum of the counts the calls return.
\<close>

theorem buildArticulatedLabel_two_passes:
  assumes "cl_num_segments label \<le> length (cs_texcoords sty)"
  shows "\<exists>geom_count sty' w' calls.
      buildArticulatedLabel me vt label sty tile w = Inr (geom_count, sty', w')
    \<and> w_quads w' = w_quads w @ calls
    \<and> length calls = 2 * cl_num_segments label
    \<and> geom_count = sum_list (map (geom_of me) calls)
    \<and> (\<forall>i < cl_num_segments label.
          o_texcoord_scale (qc_options (calls ! i)) = nth_opt (cs_texcoords_stroke sty) i
        \<and> o_angles (qc_options (calls ! i)) = nth_opt (cl_angles label) i
        \<and> o_pre_angles (qc_options (calls ! i)) = nth_opt (cl_pre_angles label) i
        \<and> o_offsets (qc_options (calls ! i)) = nth_opt (cl_offsets label) i
        \<and> o_quad (qc_options (calls ! i)) = nth_opt (cs_size sty) i
        \<and> o_angle (qc_options (calls ! i)) = cl_angle label * 4096
        \<and> o_curve (qc_options (calls ! i))
        \<and> qc_points (calls ! i) = [cl_position label])
    \<and> (\<forall>i < cl_num_segments label.
          o_texcoord_scale (qc_options (calls ! (cl_num_segments label + i)))
            = Some (cs_texcoords sty ! i)
        \<and> o_angles (qc_options (calls ! (cl_num_segments label + i))) = nth_opt (cl_angles label) i
        \<and> o_pre_angles (qc_options (calls ! (cl_num_segments label + i)))
            = nth_opt (cl_pre_angles label) i
        \<and> o_offsets (qc_options (calls ! (cl_num_segments label + i)))
            = nth_opt (cl_offsets label) i
        \<and> o_quad (qc_options (calls ! (cl_num_segments label + i))) = nth_opt (cs_size sty) i
        \<and> o_angle (qc_options (calls ! (cl_num_segments label + i))) = cl_angle label * 4096
        \<and> o_curve (qc_options (calls ! (cl_num_segments label + i)))
        \<and> qc_points (calls ! (cl_num_segments label + i)) = [cl_position label])"
proof -
  let ?n = "cl_num_segments label"
  let ?S = "map (\<lambda>k. segment_call me label vt tile sty (nth_opt (cs_texcoords_stroke sty) k) k) [0..<?n]"
  let ?F = "map (\<lambda>k. segment_call me label vt tile sty (Some (cs_texcoords sty ! k)) k) [0..<?n]"
  from buildArticulatedLabel_calls [OF assms, of me vt tile w] obtain sty' w' where
    r: "buildArticulatedLabel me vt label sty tile w =
          Inr (sum_list (map (geom_of me) (?S @ ?F)), sty', w')"
    and q: "w_quads w' = w_quads w @ ?S @ ?F"
    by blast
  have len: "length (?S @ ?F) = 2 * ?n" by simp
  have stroke: "\<forall>i < ?n.
          o_texcoord_scale (qc_options ((?S @ ?F) ! i)) = nth_opt (cs_texcoords_stroke sty) i
        \<and> o_angles (qc_options ((?S @ ?F) ! i)) = nth_opt (cl_angles label) i
        \<and> o_pre_angles (qc_options ((?S @ ?F) ! i)) = nth_opt (cl_pre_angles label) i
        \<and> o_offsets (qc_options ((?S @ ?F) ! i)) = nth_opt (cl_offsets label) i
        \<and> o_quad (qc_options ((?S @ ?F) ! i)) = nth_opt (cs_size sty) i
        \<and> o_angle (qc_options ((?S @ ?F) ! i)) = cl_angle label * 4096
        \<and> o_curve (qc_options ((?S @ ?F) ! i))
        \<and> qc_points ((?S @ ?F) ! i) = [cl_position label]"
    by (simp add: nth_append segment_call_def buildQuad_options_def Let_def)
  have fill: "\<forall>i < ?n.
          o_texcoord_scale (qc_options ((?S @ ?F) ! (?n + i))) = Some (cs_texcoords sty ! i)
        \<and> o_angles (qc_options ((?S @ ?F) ! (?n + i))) = nth_opt (cl_angles label) i
        \<and> o_pre_angles (qc_options ((?S @ ?F) ! (?n + i))) = nth_opt (cl_pre_angles label) i
        \<and> o_offsets (qc_options ((?S @ ?F) ! (?n + i))) = nth_opt (cl_offsets label) i
        \<and> o_quad (qc_options ((?S @ ?F) ! (?n + i))) = nth_opt (cs_size sty) i
        \<and> o_angle (qc_options ((?S @ ?F) ! (?n + i))) = cl_angle label * 4096
        \<and> o_curve (qc_options ((?S @ ?F) ! (?n + i)))
        \<and> qc_points ((?S @ ?F) ! (?n + i)) = [cl_position label]"
    by (simp add: nth_append segment_call_def buildQuad_options_def Let_def)
  from r q len stroke fill show ?thesis by blast
qed

theorem buildArticulatedLabel_two_passes_witness:
  "cl_num_segments example_curved_label \<le> length (cs_texcoords example_curved_style)
   \<and> (\<exists>geom_count sty' w'.
        buildArticulatedLabel example_mesh_env () example_curved_label example_curved_style
          example_tile example_world = Inr (geom_count, sty', w')
      \<and> length (w_quads w') = 4
      \<and> map (\<lambda>c. o_texcoord_scale (qc_options c)) (w_quads w') =
          [Some [0, 0, 0.1, 0.1], Some [0.1, 0, 0.2, 0.1],
           Some [0, 0.5, 0.1, 0.6], Some [0.1, 0.5, 0.2, 0.6]])"
proof -
  have h: "cl_num_segments example_curved_label \<le> length (cs_texcoords example_curved_style)"
    by (simp add: example_curved_label_def example_curved_style_def)
  from buildArticulatedLabel_two_passes [OF h, of example_mesh_env "()" example_tile example_world]
  obtain geom_count sty' w' calls where
    r: "buildArticulatedLabel example_mesh_env () example_curved_label example_curved_style
          example_tile example_world = Inr (geom_count, sty', w')"
    and q: "w_quads w' = w_quads example_world @ calls"
    and len: "length calls = 2 * cl_num_segments example_curved_label"
    and stroke: "\<forall>i < cl_num_segments example_curved_label.
          o_texcoord_scale (qc_options (calls ! i)) = nth_opt (cs_texcoords_stroke example_curved_style) i"
    and fill: "\<forall>i < cl_num_segments example_curved_label.
          o_texcoord_scale (qc_options (calls ! (cl_num_segments example_curved_label + i)))
            = Some (cs_texcoords example_curved_style ! i)"
    by blast
  have n: "cl_num_segments example_curved_label = 2" by (simp add: example_curved_label_def)
  from len n have l4: "length calls = 4" by simp
  from stroke n have s0: "o_texcoord_scale (qc_options (calls ! 0)) = Some [0, 0, 0.1, 0.1]"
    and s1: "o_texcoord_scale (qc_options (calls ! 1)) = Some [0.1, 0, 0.2, 0.1]"
    by (simp_all add: example_curved_style_def nth_opt_def)
  from fill [rule_format, of 0] fill [rule_format, of 1] n
  have f0: "o_texcoord_scale (qc_options (calls ! 2)) = Some [0, 0.5, 0.1, 0.6]"
    and f1: "o_texcoord_scale (qc_options (calls ! 3)) = Some [0.1, 0.5, 0.2, 0.6]"
    by (simp_all add: example_curved_style_def)
  from l4 obtain a b c d where calls: "calls = [a, b, c, d]"
    by (auto simp: length_Suc_conv numeral_eq_Suc)
  have "map (\<lambda>c. o_texcoord_scale (qc_options c)) calls =
          [Some [0, 0, 0.1, 0.1], Some [0.1, 0, 0.2, 0.1],
           Some [0, 0.5, 0.1, 0.6], Some [0.1, 0.5, 0.2, 0.6]]"
    using s0 s1 f0 f1 unfolding calls by simp
  with r q l4 h show ?thesis by (simp add: example_world_def)
qed

end
